theory Spec2Isabelle
  imports Complex_Main
begin

section \<open>The record store\<close>

text \<open>
  The tables of \<^verbatim>\<open>database_schema.sql\<close> that the verification core reads and writes.
  A table is the list of its rows. Identifiers (UUID columns) are natural numbers,
  timestamps are integers: the milliseconds since the epoch that a JavaScript
  \<^verbatim>\<open>Date\<close> holds. Columns that no handler reads or writes (\<^verbatim>\<open>description\<close>,
  \<^verbatim>\<open>price\<close>, \<^verbatim>\<open>duration_days\<close>, \<^verbatim>\<open>is_admin\<close>) and the bookkeeping columns
  \<^verbatim>\<open>created_at\<close>/\<^verbatim>\<open>updated_at\<close> kept by triggers are left out; they are not part
  of the data model of the specification. The boolean columns are nullable in the
  schema; the handlers only test them for truthiness, where \<^verbatim>\<open>NULL\<close> reads as false.
\<close>

type_synonym uuid = nat
type_synonym timestamp = int

datatype subscription_status = Free | Trial | Premium

record user_row =
  u_id :: uuid
  email :: string
  full_name :: "string option"

record product_row =
  p_id :: uuid
  p_name :: string
  trial_enabled :: bool
  is_active :: bool

record api_key_row =
  k_id :: uuid
  k_user_id :: uuid
  k_product_id :: uuid
  key_value :: string
  device_id :: "string option"

record subscription_row =
  s_id :: uuid
  s_user_id :: uuid
  s_product_id :: uuid
  status :: subscription_status
  expires_at :: "timestamp option"
  trial_used :: bool

record store =
  users :: "user_row list"
  products :: "product_row list"
  api_keys :: "api_key_row list"
  subscriptions :: "subscription_row list"

subsection \<open>JavaScript values\<close>

text \<open>
  A request field or a nullable text column is a \<open>string option\<close>; \<open>None\<close> stands for
  \<^verbatim>\<open>undefined\<close>/\<^verbatim>\<open>null\<close>. \<^verbatim>\<open>!v\<close> holds for these and for the empty string.
\<close>

definition falsy :: "string option \<Rightarrow> bool" where
  "falsy v = (case v of None \<Rightarrow> True | Some s \<Rightarrow> s = [])"

text \<open>
  What the handlers take from their environment: the server's time zone, as the two
  offsets of the language definition (\<^verbatim>\<open>LocalTZA(t, true)\<close>, the offset of local time
  from UTC at the instant \<open>t\<close>, and \<^verbatim>\<open>LocalTZA(t, false)\<close>, the offset in force at the
  local time \<open>t\<close>), and which stored dates \<^verbatim>\<open>new Date(text)\<close> can parse from the
  text in which the store returns them. They are parameters of the handlers.
\<close>

record environment =
  LocalTZA_utc :: "timestamp \<Rightarrow> int"
  LocalTZA_local :: "timestamp \<Rightarrow> int"
  parses :: "timestamp \<Rightarrow> bool"

text \<open>A \<^verbatim>\<open>Date\<close> object: a time value in milliseconds, or the invalid date (\<^verbatim>\<open>NaN\<close>).\<close>

datatype js_date = Invalid_Date | Date timestamp

text \<open>\<^verbatim>\<open>new Date(subscription.expires_at)\<close> on the text of a stored timestamp.\<close>

definition new_Date :: "environment \<Rightarrow> timestamp \<Rightarrow> js_date" where
  "new_Date env t = (if parses env t then Date t else Invalid_Date)"

text \<open>
  The number that \<^verbatim>\<open>expiresAt - now\<close> takes for \<^verbatim>\<open>expiresAt\<close>: 0 for \<^verbatim>\<open>null\<close>,
  \<^verbatim>\<open>NaN\<close> (here \<open>None\<close>) for an invalid date, the time value otherwise.
\<close>

definition date_value :: "js_date option \<Rightarrow> int option" where
  "date_value d =
     (case d of None \<Rightarrow> Some 0 | Some Invalid_Date \<Rightarrow> None | Some (Date t) \<Rightarrow> Some t)"

text \<open>The same conversion on a stored timestamp: \<^verbatim>\<open>null\<close> counts as 0.\<close>

definition to_number :: "timestamp option \<Rightarrow> int" where
  "to_number t = (case t of None \<Rightarrow> 0 | Some ms \<Rightarrow> ms)"

definition MS_PER_DAY :: int where
  "MS_PER_DAY = 1000 * 60 * 60 * 24"

text \<open>
  \<^verbatim>\<open>Math.ceil(x / d)\<close> on integers \<open>x\<close> and a positive \<open>d\<close>. The operands are
  differences of valid \<^verbatim>\<open>Date\<close> values with the clock after 1970, below \<open>2^53\<close> in
  magnitude, and the quotient is below \<open>2^27\<close>, where a double separates every
  multiple of \<open>1/d\<close> from the next integer, so the floating-point result is the exact
  ceiling.
\<close>

definition math_ceil_div :: "int \<Rightarrow> int \<Rightarrow> int" where
  "math_ceil_div x d = - ((- x) div d)"

text \<open>
  \<^verbatim>\<open>d.setDate(d.getDate() + n)\<close> moves a date by \<open>n\<close> calendar days of the server's
  time zone: the time value is turned into local time, \<open>n\<close> days of \<open>MS_PER_DAY\<close>
  milliseconds are added there, and the result is turned back with the offset in force
  at that local time. Across a change of the offset the instant moves by an hour less
  or more than \<open>n\<close> times 24 hours.
\<close>

definition setDate_plus :: "environment \<Rightarrow> timestamp \<Rightarrow> int \<Rightarrow> timestamp" where
  "setDate_plus env t n =
     (let newDate = t + LocalTZA_utc env t + n * MS_PER_DAY
      in newDate - LocalTZA_local env newDate)"

text \<open>A \<^verbatim>\<open>Date\<close> beyond 8.64e15 ms, before or after the epoch, is invalid and \<^verbatim>\<open>toISOString\<close> throws on it.\<close>

definition valid_date :: "timestamp \<Rightarrow> bool" where
  "valid_date t = (\<bar>t\<bar> \<le> 8640000000000000)"

subsection \<open>Queries\<close>

text \<open>\<^verbatim>\<open>.single()\<close>: the one row of a result, an error unless there is exactly one.\<close>

fun single :: "'a list \<Rightarrow> 'a option" where
  "single [x] = Some x"
| "single _ = None"

text \<open>
  The embedded resources of the key lookup, with the columns the select lists:
  \<^verbatim>\<open>users!inner(full_name, email)\<close>, \<^verbatim>\<open>products!inner(name, ..., is_active, trial_enabled, ...)\<close>,
  \<^verbatim>\<open>subscriptions!inner(status, expires_at, trial_used)\<close>. The key's own row is
  selected with \<^verbatim>\<open>*\<close>. The subscription is selected without its \<^verbatim>\<open>id\<close>, so the
  property \<^verbatim>\<open>subscription.id\<close> that the handlers read is \<^verbatim>\<open>undefined\<close>:
  \<open>sv_id\<close> records what that property holds.
\<close>

record user_view =
  uv_full_name :: "string option"
  uv_email :: string

record product_view =
  pv_name :: string
  pv_is_active :: bool
  pv_trial_enabled :: bool

record subscription_view =
  sv_id :: "uuid option"
  sv_status :: subscription_status
  sv_expires_at :: "timestamp option"
  sv_trial_used :: bool

record key_data =
  kd_row :: api_key_row
  kd_users :: user_view
  kd_products :: product_view
  kd_subscriptions :: subscription_view

definition embed_user :: "user_row \<Rightarrow> user_view" where
  "embed_user u = \<lparr>uv_full_name = full_name u, uv_email = email u\<rparr>"

definition embed_product :: "product_row \<Rightarrow> product_view" where
  "embed_product p =
     \<lparr>pv_name = p_name p, pv_is_active = is_active p, pv_trial_enabled = trial_enabled p\<rparr>"

definition embed_subscription :: "subscription_row \<Rightarrow> subscription_view" where
  "embed_subscription s =
     \<lparr>sv_id = None, sv_status = status s, sv_expires_at = expires_at s,
      sv_trial_used = trial_used s\<rparr>"

text \<open>
  The lookup of both verify handlers: the key row with \<^verbatim>\<open>key_value = api_key\<close>, joined
  (\<^verbatim>\<open>!inner\<close>: the row is dropped when a partner is missing) with its user, its product
  and its subscription; \<^verbatim>\<open>.single()\<close> on the result. The schema gives a key no
  reference to a subscription: the two are related by the pair of user and product,
  unique in both tables, and the lookup is taken to resolve the subscription by it.
\<close>

definition join_key :: "store \<Rightarrow> api_key_row \<Rightarrow> key_data option" where
  "join_key st r =
     (case find (\<lambda>u. u_id u = k_user_id r) (users st) of
        None \<Rightarrow> None
      | Some u \<Rightarrow>
          (case find (\<lambda>p. p_id p = k_product_id r) (products st) of
             None \<Rightarrow> None
           | Some p \<Rightarrow>
               (case find (\<lambda>s. s_user_id s = k_user_id r \<and> s_product_id s = k_product_id r)
                       (subscriptions st) of
                  None \<Rightarrow> None
                | Some s \<Rightarrow>
                    Some \<lparr>kd_row = r, kd_users = embed_user u, kd_products = embed_product p,
                          kd_subscriptions = embed_subscription s\<rparr>)))"

definition select_key_data :: "store \<Rightarrow> string \<Rightarrow> key_data option" where
  "select_key_data st api_key =
     single (List.map_filter (join_key st)
               (filter (\<lambda>r. key_value r = api_key) (api_keys st)))"

subsection \<open>Updates\<close>

text \<open>\<^verbatim>\<open>from('api_keys').update({ device_id }).eq('id', id)\<close>\<close>

definition update_device_id_eq_id :: "store \<Rightarrow> uuid \<Rightarrow> string \<Rightarrow> store" where
  "update_device_id_eq_id st i d =
     st\<lparr>api_keys := map (\<lambda>r. if k_id r = i then r\<lparr>device_id := Some d\<rparr> else r) (api_keys st)\<rparr>"

text \<open>
  The payload of an update of \<^verbatim>\<open>subscriptions\<close>: a column that the object does not
  mention keeps its value.
\<close>

record subscription_update =
  set_status :: "subscription_status option"
  set_expires_at :: "timestamp option option"
  set_trial_used :: "bool option"

definition apply_update :: "subscription_update \<Rightarrow> subscription_row \<Rightarrow> subscription_row" where
  "apply_update upd s =
     s\<lparr>status := (case set_status upd of None \<Rightarrow> status s | Some v \<Rightarrow> v),
       expires_at := (case set_expires_at upd of None \<Rightarrow> expires_at s | Some v \<Rightarrow> v),
       trial_used := (case set_trial_used upd of None \<Rightarrow> trial_used s | Some v \<Rightarrow> v)\<rparr>"

text \<open>
  \<^verbatim>\<open>from('subscriptions').update(upd).eq('id', v)\<close>. With \<open>v\<close> undefined the filter is
  \<^verbatim>\<open>id=eq.undefined\<close>, which is no identifier: the store rejects the request, the client
  returns the error in its result, which the handlers do not look at, and no row changes.
\<close>

definition update_subscriptions_eq_id ::
    "store \<Rightarrow> uuid option \<Rightarrow> subscription_update \<Rightarrow> store" where
  "update_subscriptions_eq_id st v upd =
     (case v of
        None \<Rightarrow> st
      | Some i \<Rightarrow>
          st\<lparr>subscriptions :=
               map (\<lambda>s. if s_id s = i then apply_update upd s else s) (subscriptions st)\<rparr>)"

section \<open>Responses\<close>

text \<open>
  A JSON response: the HTTP status and the fields of the body, \<open>None\<close> for a field the
  body does not have. \<open>r_expires_at = Some None\<close> is the field with the value \<^verbatim>\<open>null\<close>;
  so is \<open>r_days_left = Some None\<close>, which is how \<^verbatim>\<open>NaN\<close> is serialised.
\<close>

record response =
  http_status :: nat
  r_valid :: "bool option"
  r_error :: "string option"
  r_user :: "string option"
  r_product :: "string option"
  r_active :: "bool option"
  r_status :: "subscription_status option"
  r_days_left :: "int option option"
  r_expires_at :: "timestamp option option"
  r_device_id :: "string option"
  r_message :: "string option"
  r_success :: "bool option"

definition json :: "nat \<Rightarrow> response" where
  "json code =
     \<lparr>http_status = code, r_valid = None, r_error = None, r_user = None, r_product = None,
      r_active = None, r_status = None, r_days_left = None, r_expires_at = None,
      r_device_id = None, r_message = None, r_success = None\<rparr>"

definition required_response :: response where
  "required_response =
     (json 400)\<lparr>r_valid := Some False, r_error := Some ''api_key and device_id are required''\<rparr>"

definition invalid_key_response :: response where
  "invalid_key_response = (json 200)\<lparr>r_valid := Some False, r_error := Some ''Invalid API key''\<rparr>"

definition blocked_response :: "string \<Rightarrow> response" where
  "blocked_response product_name =
     (json 200)\<lparr>r_valid := Some False, r_product := Some product_name, r_active := Some False,
                r_message := Some ''This product is no longer available.''\<rparr>"

definition conflict_response :: response where
  "conflict_response =
     (json 200)\<lparr>r_valid := Some False,
                r_error := Some ''API key is bound to a different device'',
                r_message := Some ''Use /release-device to unbind this key first.''\<rparr>"

text \<open>\<^verbatim>\<open>user.full_name || user.email\<close>\<close>

definition display_name :: "user_view \<Rightarrow> string" where
  "display_name u =
     (case uv_full_name u of None \<Rightarrow> uv_email u | Some n \<Rightarrow> if n = [] then uv_email u else n)"

section \<open>The Express server: \<^verbatim>\<open>POST /verify\<close>\<close>

text \<open>
  The handler reads the clock once on each path (\<^verbatim>\<open>new Date()\<close>); the reading is the
  parameter \<open>now\<close>, a current time far from the ends of the \<^verbatim>\<open>Date\<close> range, so
  that the date a day later is valid. Every
  \<^verbatim>\<open>await\<close> is a point where another request can run: the handler is split at its
  first one, the key lookup, so that the rest can be run on a store that has changed
  since the lookup.
\<close>

definition trial_update :: "timestamp \<Rightarrow> subscription_update" where
  "trial_update expiresAt =
     \<lparr>set_status = Some Trial, set_expires_at = Some (Some expiresAt),
      set_trial_used = Some True\<rparr>"

definition revert_update :: subscription_update where
  "revert_update = \<lparr>set_status = Some Free, set_expires_at = Some None, set_trial_used = None\<rparr>"

definition trial_activated_response :: "key_data \<Rightarrow> timestamp \<Rightarrow> string \<Rightarrow> response" where
  "trial_activated_response kd expiresAt device =
     (json 200)\<lparr>r_valid := Some True, r_user := Some (display_name (kd_users kd)),
                r_product := Some (pv_name (kd_products kd)), r_status := Some Trial,
                r_days_left := Some (Some 1), r_expires_at := Some (Some expiresAt),
                r_device_id := Some device,
                r_message := Some ''Trial activated! You have 1 day of premium access.''\<rparr>"

text \<open>Line 136: \<^verbatim>\<open>subscription.expires_at ? new Date(subscription.expires_at) : null\<close>.\<close>

definition expiresAt_of :: "environment \<Rightarrow> subscription_view \<Rightarrow> js_date option" where
  "expiresAt_of env subscription = map_option (new_Date env) (sv_expires_at subscription)"

text \<open>
  Lines 139 and 140: is the subscription read by the lookup past its expiry? A
  comparison with an invalid date is false.
\<close>

definition expired :: "environment \<Rightarrow> subscription_view \<Rightarrow> timestamp \<Rightarrow> bool" where
  "expired env subscription now =
     ((sv_status subscription = Trial \<or> sv_status subscription = Premium) \<and>
      (case expiresAt_of env subscription of
         None \<Rightarrow> False
       | Some Invalid_Date \<Rightarrow> False
       | Some (Date e) \<Rightarrow> e < now))"

text \<open>The local object after \<^verbatim>\<open>subscription.status = 'free'; subscription.expires_at = null\<close>.\<close>

definition reverted :: "environment \<Rightarrow> subscription_view \<Rightarrow> timestamp \<Rightarrow> subscription_view" where
  "reverted env subscription now =
     (if expired env subscription now
      then subscription\<lparr>sv_status := Free, sv_expires_at := None\<rparr>
      else subscription)"

text \<open>
  Lines 160 and 161: \<^verbatim>\<open>Math.max(0, Math.ceil((expiresAt - now) / (1000 * 60 * 60 * 24)))\<close>,
  \<^verbatim>\<open>NaN\<close> (here \<open>None\<close>) on an invalid date.
\<close>

definition days_left :: "js_date option \<Rightarrow> timestamp \<Rightarrow> int option" where
  "days_left expiresAt now =
     map_option (\<lambda>x. max 0 (math_ceil_div (x - now) MS_PER_DAY)) (date_value expiresAt)"

text \<open>Lines 150 to 167: the response from the local subscription object.\<close>

definition steady_response ::
    "key_data \<Rightarrow> subscription_view \<Rightarrow> js_date option \<Rightarrow> timestamp \<Rightarrow> string \<Rightarrow> response" where
  "steady_response kd subscription expiresAt now device =
     (let response =
            (json 200)\<lparr>r_valid := Some True, r_user := Some (display_name (kd_users kd)),
                       r_product := Some (pv_name (kd_products kd)),
                       r_status := Some (sv_status subscription), r_device_id := Some device\<rparr>;
          response =
            (if sv_status subscription = Premium \<or> sv_status subscription = Trial
             then response\<lparr>r_days_left := Some (days_left expiresAt now),
                           r_expires_at := Some (sv_expires_at subscription)\<rparr>
             else response)
      in if sv_status subscription = Free \<and> \<not> pv_trial_enabled (kd_products kd)
         then response\<lparr>r_message := Some ''Trial not available for this product.''\<rparr>
         else response)"

text \<open>Lines 107 to 169, on the store as it is after the device check.\<close>

definition verify_lifecycle ::
    "environment \<Rightarrow> key_data \<Rightarrow> store \<Rightarrow> timestamp \<Rightarrow> string \<Rightarrow> response \<times> store" where
  "verify_lifecycle env kd st now device =
     (let product = kd_products kd; subscription = kd_subscriptions kd
      in if sv_status subscription = Free \<and> pv_trial_enabled product \<and> \<not> sv_trial_used subscription
         then
           (let expiresAt = setDate_plus env now 1
            in (trial_activated_response kd expiresAt device,
                update_subscriptions_eq_id st (sv_id subscription) (trial_update expiresAt)))
         else
           (let expiresAt = expiresAt_of env subscription;
                st' = (if expired env subscription now
                       then update_subscriptions_eq_id st (sv_id subscription) revert_update
                       else st)
            in (steady_response kd (reverted env subscription now) expiresAt now device, st')))"

text \<open>Lines 72 to 169: the handler after the lookup has returned \<open>keyData\<close>.\<close>

definition verify_after_select ::
    "environment \<Rightarrow> key_data option \<Rightarrow> store \<Rightarrow> timestamp \<Rightarrow> string
       \<Rightarrow> response \<times> store" where
  "verify_after_select env keyData st now device =
     (case keyData of
        None \<Rightarrow> (invalid_key_response, st)
      | Some kd \<Rightarrow>
          if \<not> pv_is_active (kd_products kd)
          then (blocked_response (pv_name (kd_products kd)), st)
          else if falsy (device_id (kd_row kd))
          then verify_lifecycle env kd
                 (update_device_id_eq_id st (k_id (kd_row kd)) device) now device
          else if device_id (kd_row kd) \<noteq> Some device
          then (conflict_response, st)
          else verify_lifecycle env kd st now device)"

definition verify ::
    "environment \<Rightarrow> store \<Rightarrow> timestamp \<Rightarrow> string option \<Rightarrow> string option
       \<Rightarrow> response \<times> store" where
  "verify env st now api_key device =
     (case api_key of
        None \<Rightarrow> (required_response, st)
      | Some k \<Rightarrow>
          (case device of
             None \<Rightarrow> (required_response, st)
           | Some d \<Rightarrow>
               if k = [] \<or> d = [] then (required_response, st)
               else verify_after_select env (select_key_data st k) st now d))"

section \<open>The Express server: \<^verbatim>\<open>POST /release-device\<close>\<close>

text \<open>
  \<^verbatim>\<open>update({ device_id: null }).eq('key_value', api_key).select().single()\<close>: a
  mutation that asks for a single object is rolled back by the store unless it changed
  exactly one row.
\<close>

definition update_device_null_eq_key_value :: "store \<Rightarrow> string \<Rightarrow> api_key_row option \<times> store" where
  "update_device_null_eq_key_value st k =
     (case single (filter (\<lambda>r. key_value r = k) (api_keys st)) of
        None \<Rightarrow> (None, st)
      | Some r \<Rightarrow>
          (Some (r\<lparr>device_id := None\<rparr>),
           st\<lparr>api_keys :=
                map (\<lambda>r. if key_value r = k then r\<lparr>device_id := None\<rparr> else r) (api_keys st)\<rparr>))"

definition key_required_response :: response where
  "key_required_response = (json 400)\<lparr>r_error := Some ''api_key is required''\<rparr>"

definition not_found_response :: response where
  "not_found_response = (json 404)\<lparr>r_error := Some ''API key not found''\<rparr>"

definition released_response :: response where
  "released_response =
     (json 200)\<lparr>r_success := Some True,
                r_message := Some ''Device binding released successfully''\<rparr>"

definition release_device :: "store \<Rightarrow> string option \<Rightarrow> response \<times> store" where
  "release_device st api_key =
     (case api_key of
        None \<Rightarrow> (key_required_response, st)
      | Some k \<Rightarrow>
          if k = [] then (key_required_response, st)
          else
            (case update_device_null_eq_key_value st k of
               (None, st') \<Rightarrow> (not_found_response, st')
             | (Some data, st') \<Rightarrow> (released_response, st')))"

section \<open>The Express server: \<^verbatim>\<open>PUT /admin/users/:id/subscription\<close>\<close>

datatype js_error = TypeError | RangeError | PostgrestError

text \<open>
  The \<^verbatim>\<open>days\<close> field of the request body can be any JSON value. The handler uses
  it in two ways only, and a value is represented by what these give: whether it is
  truthy (\<^verbatim>\<open>status === 'premium' && days\<close>), and the result of \<^verbatim>\<open>parseInt(days)\<close>,
  an integer or \<^verbatim>\<open>NaN\<close> (here \<open>None\<close>).
\<close>

record days_value =
  truthy_days :: bool
  parseInt :: "int option"

text \<open>
  Three values: the field left out (\<^verbatim>\<open>undefined\<close>), the number 0, and the string
  \<^verbatim>\<open>"30"\<close> that the admin form sends by default.
\<close>

definition days_undefined :: days_value where
  "days_undefined = \<lparr>truthy_days = False, parseInt = None\<rparr>"

definition days_number_0 :: days_value where
  "days_number_0 = \<lparr>truthy_days = False, parseInt = Some 0\<rparr>"

definition days_string_30 :: days_value where
  "days_string_30 = \<lparr>truthy_days = True, parseInt = Some 30\<rparr>"

text \<open>
  Lines 325 to 333. \<^verbatim>\<open>setDate(NaN)\<close> makes the date invalid, and \<^verbatim>\<open>toISOString\<close>
  throws on an invalid date and on one out of range.
\<close>

definition updateData ::
    "environment \<Rightarrow> timestamp \<Rightarrow> subscription_status \<Rightarrow> days_value
       \<Rightarrow> js_error + subscription_update" where
  "updateData env now new_status days =
     (if new_status = Premium \<and> truthy_days days
      then
        (case parseInt days of
           None \<Rightarrow> Inl RangeError
         | Some n \<Rightarrow>
             (let expiresAt = setDate_plus env now n
              in if valid_date expiresAt
                 then Inr \<lparr>set_status = Some new_status,
                           set_expires_at = Some (Some expiresAt), set_trial_used = None\<rparr>
                 else Inl RangeError))
      else if new_status = Free
      then Inr \<lparr>set_status = Some new_status, set_expires_at = Some None, set_trial_used = None\<rparr>
      else Inr \<lparr>set_status = Some new_status, set_expires_at = None, set_trial_used = None\<rparr>)"

text \<open>
  The SQL function \<^verbatim>\<open>ensure_subscription\<close> with the trigger
  \<^verbatim>\<open>on_subscription_created\<close>. The identifiers and the key that the database
  generates are parameters. The insert does nothing when the user and product have a
  subscription; a missing user or product (foreign keys) or a generated value that is
  taken (primary key, unique \<^verbatim>\<open>key_value\<close>) aborts the call, whose error the
  handler does not look at. The trigger adds an API key unless the pair has one.
\<close>

record generated =
  gen_subscription_id :: uuid
  gen_api_key_id :: uuid
  gen_api_key :: string

definition create_api_key_for_subscription :: "store \<Rightarrow> generated \<Rightarrow> subscription_row \<Rightarrow> store option" where
  "create_api_key_for_subscription st g new =
     (if \<exists>r \<in> set (api_keys st). k_user_id r = s_user_id new \<and> k_product_id r = s_product_id new
      then Some st
      else if \<exists>r \<in> set (api_keys st). k_id r = gen_api_key_id g \<or> key_value r = gen_api_key g
      then None
      else Some (st\<lparr>api_keys := api_keys st @
                   [\<lparr>k_id = gen_api_key_id g, k_user_id = s_user_id new,
                     k_product_id = s_product_id new, key_value = gen_api_key g,
                     device_id = None\<rparr>]\<rparr>))"

definition ensure_subscription :: "store \<Rightarrow> generated \<Rightarrow> uuid \<Rightarrow> uuid \<Rightarrow> store" where
  "ensure_subscription st g p_user_id p_product_id =
     (if \<exists>s \<in> set (subscriptions st). s_user_id s = p_user_id \<and> s_product_id s = p_product_id
      then st
      else if \<not> (\<exists>u \<in> set (users st). u_id u = p_user_id) \<or>
              \<not> (\<exists>p \<in> set (products st). p_id p = p_product_id) \<or>
              (\<exists>s \<in> set (subscriptions st). s_id s = gen_subscription_id g)
      then st
      else
        (let new = \<lparr>s_id = gen_subscription_id g, s_user_id = p_user_id,
                    s_product_id = p_product_id, status = Free, expires_at = None,
                    trial_used = False\<rparr>
         in case create_api_key_for_subscription
                   (st\<lparr>subscriptions := subscriptions st @ [new]\<rparr>) g new of
              None \<Rightarrow> st
            | Some st' \<Rightarrow> st'))"

text \<open>
  \<^verbatim>\<open>update(updateData).eq('user_id', user_id).eq('product_id', product_id).select().single()\<close>,
  rolled back unless it changed exactly one row.
\<close>

definition update_subscriptions_eq_user_product ::
    "store \<Rightarrow> uuid \<Rightarrow> uuid \<Rightarrow> subscription_update \<Rightarrow> subscription_row option \<times> store" where
  "update_subscriptions_eq_user_product st user_id product_id upd =
     (case single (filter (\<lambda>s. s_user_id s = user_id \<and> s_product_id s = product_id)
                     (subscriptions st)) of
        None \<Rightarrow> (None, st)
      | Some s \<Rightarrow>
          (Some (apply_update upd s),
           st\<lparr>subscriptions :=
                map (\<lambda>s. if s_user_id s = user_id \<and> s_product_id s = product_id
                         then apply_update upd s else s) (subscriptions st)\<rparr>))"

text \<open>
  The handler behind \<^verbatim>\<open>requireAdmin\<close>: the updated row, or the error that its
  \<^verbatim>\<open>catch\<close> turns into a 500 response.
\<close>

definition admin_subscription ::
    "environment \<Rightarrow> store \<Rightarrow> timestamp \<Rightarrow> generated \<Rightarrow> uuid \<Rightarrow> uuid \<Rightarrow> subscription_status
       \<Rightarrow> days_value \<Rightarrow> (js_error + subscription_row) \<times> store" where
  "admin_subscription env st now g user_id product_id new_status days =
     (case updateData env now new_status days of
        Inl e \<Rightarrow> (Inl e, st)
      | Inr upd \<Rightarrow>
          (let st1 = ensure_subscription st g user_id product_id
           in case update_subscriptions_eq_user_product st1 user_id product_id upd of
                (None, st2) \<Rightarrow> (Inl PostgrestError, st2)
              | (Some data, st2) \<Rightarrow> (Inr data, st2)))"

section \<open>The edge function: \<^verbatim>\<open>handleVerify\<close>\<close>

text \<open>
  The edge function issues the same queries. Its \<^verbatim>\<open>handleVerify\<close> has no
  \<^verbatim>\<open>try\<close> of its own: an exception leaves it and is caught by \<^verbatim>\<open>serve\<close>. The
  only one it can raise on a parsed body is the \<^verbatim>\<open>TypeError\<close> of
  \<^verbatim>\<open>expiresAt!.getTime()\<close> on \<^verbatim>\<open>null\<close>.
\<close>

text \<open>
  Lines 396 and 397:
  \<^verbatim>\<open>Math.max(0, Math.ceil((expiresAt!.getTime() - now.getTime()) / (1000 * 60 * 60 * 24)))\<close>;
  \<^verbatim>\<open>getTime\<close> of an invalid date is \<^verbatim>\<open>NaN\<close>.
\<close>

definition handleVerify_days_left :: "js_date option \<Rightarrow> timestamp \<Rightarrow> js_error + int option" where
  "handleVerify_days_left expiresAt now =
     (case expiresAt of
        None \<Rightarrow> Inl TypeError
      | Some Invalid_Date \<Rightarrow> Inr None
      | Some (Date e) \<Rightarrow> Inr (Some (max 0 (math_ceil_div (e - now) MS_PER_DAY))))"

definition handleVerify_response ::
    "key_data \<Rightarrow> subscription_view \<Rightarrow> js_date option \<Rightarrow> timestamp \<Rightarrow> string
       \<Rightarrow> js_error + response" where
  "handleVerify_response kd subscription expiresAt now device =
     (let response =
            (json 200)\<lparr>r_valid := Some True, r_user := Some (display_name (kd_users kd)),
                       r_product := Some (pv_name (kd_products kd)),
                       r_status := Some (sv_status subscription), r_device_id := Some device\<rparr>;
          with_message = (\<lambda>response.
            if sv_status subscription = Free \<and> \<not> pv_trial_enabled (kd_products kd)
            then response\<lparr>r_message := Some ''Trial not available for this product.''\<rparr>
            else response)
      in if sv_status subscription = Premium \<or> sv_status subscription = Trial
         then
           (case handleVerify_days_left expiresAt now of
              Inl e \<Rightarrow> Inl e
            | Inr daysLeft \<Rightarrow>
                Inr (with_message (response\<lparr>r_days_left := Some daysLeft,
                                             r_expires_at := Some (sv_expires_at subscription)\<rparr>)))
         else Inr (with_message response))"

definition handleVerify_lifecycle ::
    "environment \<Rightarrow> key_data \<Rightarrow> store \<Rightarrow> timestamp \<Rightarrow> string
       \<Rightarrow> (js_error + response) \<times> store" where
  "handleVerify_lifecycle env kd st now device =
     (let product = kd_products kd; subscription = kd_subscriptions kd
      in if sv_status subscription = Free \<and> pv_trial_enabled product \<and> \<not> sv_trial_used subscription
         then
           (let expiresAt = setDate_plus env now 1
            in (Inr (trial_activated_response kd expiresAt device),
                update_subscriptions_eq_id st (sv_id subscription) (trial_update expiresAt)))
         else
           (let expiresAt = expiresAt_of env subscription;
                st' = (if expired env subscription now
                       then update_subscriptions_eq_id st (sv_id subscription) revert_update
                       else st)
            in (handleVerify_response kd (reverted env subscription now) expiresAt now device,
                st')))"

definition handleVerify ::
    "environment \<Rightarrow> store \<Rightarrow> timestamp \<Rightarrow> string option \<Rightarrow> string option
       \<Rightarrow> (js_error + response) \<times> store" where
  "handleVerify env st now api_key device =
     (case api_key of
        None \<Rightarrow> (Inr required_response, st)
      | Some k \<Rightarrow>
          (case device of
             None \<Rightarrow> (Inr required_response, st)
           | Some d \<Rightarrow>
               if k = [] \<or> d = [] then (Inr required_response, st)
               else
                 (case select_key_data st k of
                    None \<Rightarrow> (Inr invalid_key_response, st)
                  | Some kd \<Rightarrow>
                      if \<not> pv_is_active (kd_products kd)
                      then (Inr (blocked_response (pv_name (kd_products kd))), st)
                      else if falsy (device_id (kd_row kd))
                      then handleVerify_lifecycle env kd
                             (update_device_id_eq_id st (k_id (kd_row kd)) d) now d
                      else if device_id (kd_row kd) \<noteq> Some d
                      then (Inr conflict_response, st)
                      else handleVerify_lifecycle env kd st now d)))"

text \<open>\<^verbatim>\<open>serve\<close> on the route \<^verbatim>\<open>POST /verify\<close>: its \<^verbatim>\<open>catch\<close> answers an exception.\<close>

definition serve_error_response :: response where
  "serve_error_response = (json 500)\<lparr>r_error := Some ''Internal server error''\<rparr>"

definition serve_verify ::
    "environment \<Rightarrow> store \<Rightarrow> timestamp \<Rightarrow> string option \<Rightarrow> string option
       \<Rightarrow> response \<times> store" where
  "serve_verify env st now api_key device =
     (case handleVerify env st now api_key device of
        (Inl e, st') \<Rightarrow> (serve_error_response, st')
      | (Inr response, st') \<Rightarrow> (response, st'))"

section \<open>Sample environments and a sample store\<close>

text \<open>
  A server on UTC, and a server on New York time around the end of daylight saving
  time on 3 November 2024: at 06:00 UTC (1730613600000 ms) the offset goes from 4
  hours behind UTC to 5 hours behind, and a local time is taken with the earlier
  offset up to 02:00 of that day. In both, the dates of the years 1 to 9999 are the
  ones that \<^verbatim>\<open>new Date\<close> parses from the store's text.
\<close>

definition four_digit_year :: "timestamp \<Rightarrow> bool" where
  "four_digit_year t = (- 62135596800000 \<le> t \<and> t < 253402300800000)"

definition utc_environment :: environment where
  "utc_environment =
     \<lparr>LocalTZA_utc = (\<lambda>t. 0), LocalTZA_local = (\<lambda>t. 0), parses = four_digit_year\<rparr>"

definition new_york_environment :: environment where
  "new_york_environment =
     \<lparr>LocalTZA_utc = (\<lambda>t. if t < 1730613600000 then - 14400000 else - 18000000),
      LocalTZA_local = (\<lambda>t. if t < 1730613600000 - 14400000 then - 14400000 else - 18000000),
      parses = four_digit_year\<rparr>"

text \<open>
  One user with one product, key and subscription, as the schema's triggers create
  them; the arguments set the fields that the handlers look at.
\<close>

definition sample_store ::
    "bool \<Rightarrow> bool \<Rightarrow> string option \<Rightarrow> subscription_status \<Rightarrow> timestamp option \<Rightarrow> bool \<Rightarrow> store" where
  "sample_store active trial dev stat expires used =
     \<lparr>users = [\<lparr>u_id = 1, email = ''ann@example.org'', full_name = Some ''Ann''\<rparr>],
      products = [\<lparr>p_id = 7, p_name = ''Scraper Pro'', trial_enabled = trial, is_active = active\<rparr>],
      api_keys = [\<lparr>k_id = 3, k_user_id = 1, k_product_id = 7, key_value = ''sk_1'',
                   device_id = dev\<rparr>],
      subscriptions = [\<lparr>s_id = 5, s_user_id = 1, s_product_id = 7, status = stat,
                        expires_at = expires, trial_used = used\<rparr>]\<rparr>"

section \<open>Predicates of the specification\<close>

text \<open>
  The invariant of the data model on a subscription: it is free exactly when it has no
  expiry date. A store satisfies it when every subscription does.
\<close>

definition row_inv :: "subscription_row \<Rightarrow> bool" where
  "row_inv s = ((status s = Free) = (expires_at s = None))"

definition sub_inv :: "store \<Rightarrow> bool" where
  "sub_inv st = list_all row_inv (subscriptions st)"

text \<open>What the first-use bind does to one row of \<^verbatim>\<open>api_keys\<close>.\<close>

definition bind_row :: "uuid \<Rightarrow> string \<Rightarrow> api_key_row \<Rightarrow> api_key_row" where
  "bind_row i d r = (if k_id r = i then r\<lparr>device_id := Some d\<rparr> else r)"

text \<open>The view of the sample store's key, as the lookup returns it.\<close>

definition sample_key_data ::
    "bool \<Rightarrow> bool \<Rightarrow> string option \<Rightarrow> subscription_status \<Rightarrow> timestamp option \<Rightarrow> bool \<Rightarrow> key_data" where
  "sample_key_data active trial dev stat expires used =
     \<lparr>kd_row = \<lparr>k_id = 3, k_user_id = 1, k_product_id = 7, key_value = ''sk_1'',
                 device_id = dev\<rparr>,
      kd_users = \<lparr>uv_full_name = Some ''Ann'', uv_email = ''ann@example.org''\<rparr>,
      kd_products = \<lparr>pv_name = ''Scraper Pro'', pv_is_active = active,
                      pv_trial_enabled = trial\<rparr>,
      kd_subscriptions = \<lparr>sv_id = None, sv_status = stat, sv_expires_at = expires,
                           sv_trial_used = used\<rparr>\<rparr>"

definition sample_generated :: generated where
  "sample_generated = \<lparr>gen_subscription_id = 9, gen_api_key_id = 9, gen_api_key = ''sk_9''\<rparr>"

section \<open>Basic facts\<close>

lemmas response_defs =
  json_def required_response_def invalid_key_response_def blocked_response_def
  conflict_response_def trial_activated_response_def steady_response_def
  key_required_response_def not_found_response_def released_response_def
  serve_error_response_def display_name_def

lemmas query_defs =
  select_key_data_def join_key_def List.map_filter_def embed_user_def embed_product_def
  embed_subscription_def update_device_id_eq_id_def update_subscriptions_eq_id_def
  apply_update_def update_device_null_eq_key_value_def

lemmas environment_defs =
  utc_environment_def new_york_environment_def four_digit_year_def new_Date_def
  expiresAt_of_def date_value_def setDate_plus_def MS_PER_DAY_def

lemmas verify_defs =
  verify_def verify_after_select_def verify_lifecycle_def expired_def reverted_def
  days_left_def math_ceil_div_def to_number_def falsy_def
  trial_update_def revert_update_def Let_def environment_defs

lemmas admin_defs =
  admin_subscription_def updateData_def ensure_subscription_def
  create_api_key_for_subscription_def update_subscriptions_eq_user_product_def
  apply_update_def valid_date_def days_undefined_def days_number_0_def days_string_30_def
  environment_defs

lemmas edge_defs =
  serve_verify_def handleVerify_def handleVerify_lifecycle_def handleVerify_response_def
  handleVerify_days_left_def

lemma single_Some: "single xs = Some x \<longleftrightarrow> xs = [x]"
  by (cases xs rule: single.cases) auto

lemma single_map: "single (map f xs) = map_option f (single xs)"
  by (cases xs rule: single.cases) simp_all

lemma filter_key_value_map:
  assumes "\<And>r. key_value (f r) = key_value r"
  shows "filter (\<lambda>r. key_value r = k) (map f rows) =
         map f (filter (\<lambda>r. key_value r = k) rows)"
  using assms by (induction rows) simp_all

lemma select_no_row:
  assumes "\<forall>r \<in> set (api_keys st). key_value r \<noteq> k"
  shows "select_key_data st k = None"
proof -
  from assms have "filter (\<lambda>r. key_value r = k) (api_keys st) = []"
    by (simp add: filter_empty_conv)
  then show ?thesis
    by (simp add: select_key_data_def List.map_filter_def)
qed

lemma sample_select:
  "select_key_data (sample_store active trial dev stat expires used) k =
     (if k = ''sk_1'' then Some (sample_key_data active trial dev stat expires used) else None)"
  by (simp add: sample_store_def sample_key_data_def query_defs)

subsection \<open>What the lookup returns\<close>

lemma join_key_row: "join_key st r = Some kd \<Longrightarrow> kd_row kd = r"
  by (auto simp: join_key_def split: option.splits)

lemma join_key_no_id: "join_key st r = Some kd \<Longrightarrow> sv_id (kd_subscriptions kd) = None"
  by (auto simp: join_key_def embed_subscription_def split: option.splits)

lemma select_key_data_join:
  assumes "select_key_data st k = Some kd"
  shows "join_key st (kd_row kd) = Some kd \<and> key_value (kd_row kd) = k \<and>
         kd_row kd \<in> set (api_keys st)"
proof -
  from assms
  have "List.map_filter (join_key st) (filter (\<lambda>r. key_value r = k) (api_keys st)) = [kd]"
    by (simp add: select_key_data_def single_Some)
  then have "kd \<in> set (List.map_filter (join_key st)
                         (filter (\<lambda>r. key_value r = k) (api_keys st)))"
    by simp
  then obtain r where r: "r \<in> set (api_keys st)" "key_value r = k" "join_key st r = Some kd"
    by (auto simp: List.map_filter_def)
  with join_key_row [OF r(3)] show ?thesis by simp
qed

lemma select_key_data_no_id:
  "select_key_data st k = Some kd \<Longrightarrow> sv_id (kd_subscriptions kd) = None"
  using select_key_data_join join_key_no_id by blast

subsection \<open>The lifecycle step\<close>

lemma verify_lifecycle_store:
  "sv_id (kd_subscriptions kd) = None \<Longrightarrow> snd (verify_lifecycle env kd st now d) = st"
  by (simp add: verify_lifecycle_def update_subscriptions_eq_id_def Let_def)

lemma verify_lifecycle_api_keys:
  "api_keys (snd (verify_lifecycle env kd st now d)) = api_keys st"
  by (cases "sv_id (kd_subscriptions kd)")
     (simp_all add: verify_lifecycle_def update_subscriptions_eq_id_def Let_def)

lemma verify_lifecycle_valid:
  "r_valid (fst (verify_lifecycle env kd st now d)) = Some True"
  by (simp add: verify_lifecycle_def Let_def trial_activated_response_def steady_response_def
      json_def)

text \<open>No call of verify changes a row of \<^verbatim>\<open>subscriptions\<close>.\<close>

lemma verify_subscriptions:
  "subscriptions (snd (verify env st now api_key device)) = subscriptions st"
proof -
  have "subscriptions (snd (verify_after_select env (select_key_data st k) st now d)) =
        subscriptions st" for k d
  proof (cases "select_key_data st k")
    case None
    then show ?thesis by (simp add: verify_after_select_def)
  next
    case (Some kd)
    then have "sv_id (kd_subscriptions kd) = None"
      by (rule select_key_data_no_id)
    with Some show ?thesis
      by (simp add: verify_after_select_def verify_lifecycle_store update_device_id_eq_id_def)
  qed
  then show ?thesis
    by (simp add: verify_def split: option.splits)
qed

subsection \<open>The lookup after a bind\<close>

lemma update_device_bind_row:
  "update_device_id_eq_id st i d = st\<lparr>api_keys := map (bind_row i d) (api_keys st)\<rparr>"
  by (simp add: update_device_id_eq_id_def bind_row_def [abs_def])

lemma join_key_bind:
  "join_key (st\<lparr>api_keys := rows\<rparr>) (bind_row i d r) =
     map_option (\<lambda>kd. kd\<lparr>kd_row := bind_row i d (kd_row kd)\<rparr>) (join_key st r)"
  by (simp add: join_key_def bind_row_def split: option.splits)

lemma map_filter_Cons:
  "List.map_filter f (x # xs) =
     (case f x of None \<Rightarrow> List.map_filter f xs | Some y \<Rightarrow> y # List.map_filter f xs)"
  by (simp add: List.map_filter_def split: option.splits)

lemma map_filter_join_bind:
  "List.map_filter (join_key (st\<lparr>api_keys := rows'\<rparr>)) (map (bind_row i d) rows) =
     map (\<lambda>kd. kd\<lparr>kd_row := bind_row i d (kd_row kd)\<rparr>) (List.map_filter (join_key st) rows)"
proof (induction rows)
  case Nil
  show ?case by (simp add: List.map_filter_def)
next
  case (Cons r rows)
  then show ?case
    by (simp add: map_filter_Cons join_key_bind split: option.splits)
qed

lemma select_key_data_bind:
  "select_key_data (update_device_id_eq_id st i d) k =
     map_option (\<lambda>kd. kd\<lparr>kd_row := bind_row i d (kd_row kd)\<rparr>) (select_key_data st k)"
proof -
  have keep: "\<And>r. key_value (bind_row i d r) = key_value r"
    by (simp add: bind_row_def)
  show ?thesis
    by (simp add: select_key_data_def update_device_bind_row
        filter_key_value_map [of "bind_row i d", OF keep] map_filter_join_bind single_map)
qed

section \<open>Trial activation\<close>

text \<open>The response of a verify that finds a free subscription eligible for the trial.\<close>

lemma verify_trial_response:
  assumes "k \<noteq> []" and "d \<noteq> []"
    and "select_key_data st k = Some kd"
    and "pv_is_active (kd_products kd)"
    and "falsy (device_id (kd_row kd)) \<or> device_id (kd_row kd) = Some d"
    and "sv_status (kd_subscriptions kd) = Free"
    and "pv_trial_enabled (kd_products kd)"
    and "\<not> sv_trial_used (kd_subscriptions kd)"
  shows "fst (verify env st now (Some k) (Some d)) =
           trial_activated_response kd (setDate_plus env now 1) d"
  using assms
  by (auto simp: verify_def verify_after_select_def verify_lifecycle_def Let_def)

text \<open>
  Claim C1 (the code departs from it). A free subscription of a product that offers a
  trial, with the trial unused, is answered with \<open>status = trial\<close> and
  \<open>days_left = 1\<close>, but the write that should record the activation is filtered on
  \<^verbatim>\<open>subscription.id\<close>, which the lookup did not select: the stored subscription
  stays free with the trial unused, and a second verify, four seconds later,
  activates a trial again, with a later expiry.
\<close>

theorem trial_activation_not_stored:
  "r_status (fst (verify utc_environment (sample_store True True None Free None False) 1000
      (Some ''sk_1'') (Some ''D1''))) = Some Trial \<and>
   r_days_left (fst (verify utc_environment (sample_store True True None Free None False) 1000
      (Some ''sk_1'') (Some ''D1''))) = Some (Some 1) \<and>
   subscriptions (snd (verify utc_environment (sample_store True True None Free None False) 1000
      (Some ''sk_1'') (Some ''D1''))) =
     [\<lparr>s_id = 5, s_user_id = 1, s_product_id = 7, status = Free, expires_at = None,
       trial_used = False\<rparr>] \<and>
   fst (verify utc_environment (snd (verify utc_environment (sample_store True True None Free None False) 1000
      (Some ''sk_1'') (Some ''D1''))) 5000 (Some ''sk_1'') (Some ''D1'')) =
     trial_activated_response (sample_key_data True True (Some ''D1'') Free None False)
       (5000 + 86400000) ''D1''"
  by (simp add: sample_store_def sample_key_data_def query_defs verify_defs response_defs)

section \<open>Expiry reversion\<close>

text \<open>
  The response of a verify that finds a trial or premium subscription past its expiry,
  the stored date being one that \<^verbatim>\<open>new Date\<close> parses.
\<close>

lemma verify_expired_response:
  assumes "k \<noteq> []" and "d \<noteq> []"
    and "select_key_data st k = Some kd"
    and "pv_is_active (kd_products kd)"
    and "falsy (device_id (kd_row kd)) \<or> device_id (kd_row kd) = Some d"
    and "sv_status (kd_subscriptions kd) = Trial \<or> sv_status (kd_subscriptions kd) = Premium"
    and "sv_expires_at (kd_subscriptions kd) = Some e" and "parses env e" and "e < now"
  shows "r_status (fst (verify env st now (Some k) (Some d))) = Some Free \<and>
         r_days_left (fst (verify env st now (Some k) (Some d))) = None"
  using assms
  by (auto simp: verify_def verify_after_select_def verify_lifecycle_def Let_def
      steady_response_def reverted_def expired_def expiresAt_of_def new_Date_def json_def)

text \<open>
  Claim C2 (the code departs from it). A premium subscription whose expiry date is
  before the clock is reported as \<open>free\<close>, with no \<open>days_left\<close> field, but the write
  that should revert it is filtered on the same unselected \<^verbatim>\<open>subscription.id\<close>: the
  store after the call is the store before it, the subscription still premium with
  its past expiry date.
\<close>

theorem expiry_reversion_not_stored:
  "r_status (fst (verify utc_environment (sample_store True True (Some ''D1'') Premium (Some 500) True) 1000
      (Some ''sk_1'') (Some ''D1''))) = Some Free \<and>
   r_days_left (fst (verify utc_environment (sample_store True True (Some ''D1'') Premium (Some 500) True) 1000
      (Some ''sk_1'') (Some ''D1''))) = None \<and>
   snd (verify utc_environment (sample_store True True (Some ''D1'') Premium (Some 500) True) 1000
      (Some ''sk_1'') (Some ''D1'')) =
     sample_store True True (Some ''D1'') Premium (Some 500) True \<and>
   map status (subscriptions (sample_store True True (Some ''D1'') Premium (Some 500) True)) =
     [Premium]"
  by (simp add: sample_store_def query_defs verify_defs response_defs)

section \<open>The expiry invariant\<close>

lemma sub_inv_update_eq_id:
  assumes "sub_inv st" and "\<And>s. row_inv (apply_update upd s)"
  shows "sub_inv (update_subscriptions_eq_id st v upd)"
  using assms
  by (cases v) (auto simp: sub_inv_def update_subscriptions_eq_id_def list_all_iff)

lemma row_inv_trial_update: "row_inv (apply_update (trial_update e) s)"
  by (simp add: row_inv_def apply_update_def trial_update_def)

lemma row_inv_revert_update: "row_inv (apply_update revert_update s)"
  by (simp add: row_inv_def apply_update_def revert_update_def)

lemma sub_inv_update_device: "sub_inv (update_device_id_eq_id st i d) = sub_inv st"
  by (simp add: sub_inv_def update_device_id_eq_id_def)

lemma sub_inv_verify_lifecycle:
  "sub_inv st \<Longrightarrow> sub_inv (snd (verify_lifecycle env kd st now d))"
  by (simp add: verify_lifecycle_def Let_def sub_inv_update_eq_id row_inv_trial_update
      row_inv_revert_update)

lemma sub_inv_verify_after_select:
  "sub_inv st \<Longrightarrow> sub_inv (snd (verify_after_select env keyData st now d))"
  by (simp add: verify_after_select_def sub_inv_verify_lifecycle sub_inv_update_device
      split: option.splits)

lemma sub_inv_verify:
  "sub_inv st \<Longrightarrow> sub_inv (snd (verify env st now api_key device))"
  by (simp add: verify_def sub_inv_verify_after_select split: option.splits)

lemma create_api_key_subscriptions:
  "create_api_key_for_subscription st g new = Some st' \<Longrightarrow> subscriptions st' = subscriptions st"
  by (auto simp: create_api_key_for_subscription_def split: if_splits)

lemma sub_inv_ensure_subscription:
  assumes "sub_inv st"
  shows "sub_inv (ensure_subscription st g u p)"
  using assms
  by (auto simp: ensure_subscription_def Let_def sub_inv_def row_inv_def
      dest!: create_api_key_subscriptions split: option.splits)

lemma sub_inv_update_eq_user_product:
  assumes "sub_inv st" and "\<And>s. row_inv (apply_update upd s)"
  shows "sub_inv (snd (update_subscriptions_eq_user_product st u p upd))"
  using assms
  by (auto simp: sub_inv_def update_subscriptions_eq_user_product_def list_all_iff
      split: option.splits)

lemma row_inv_updateData:
  assumes "new_status = Free \<or> (new_status = Premium \<and> truthy_days days)"
    and "updateData env now new_status days = Inr upd"
  shows "row_inv (apply_update upd s)"
  using assms
  by (auto simp: updateData_def Let_def row_inv_def apply_update_def
      split: if_splits option.splits)

lemma sub_inv_admin_subscription:
  assumes "sub_inv st"
    and "new_status = Free \<or> (new_status = Premium \<and> truthy_days days)"
  shows "sub_inv (snd (admin_subscription env st now g u p new_status days))"
proof (cases "updateData env now new_status days")
  case (Inl e)
  with assms(1) show ?thesis by (simp add: admin_subscription_def)
next
  case (Inr upd)
  have "sub_inv (snd (update_subscriptions_eq_user_product (ensure_subscription st g u p) u p upd))"
    using assms(1) row_inv_updateData [OF assms(2) Inr]
    by (intro sub_inv_update_eq_user_product sub_inv_ensure_subscription)
  with Inr show ?thesis
    by (cases "update_subscriptions_eq_user_product (ensure_subscription st g u p) u p upd")
       (auto simp: admin_subscription_def Let_def split: option.splits)
qed

text \<open>
  Claim C3, as stated, fails: the admin override to premium with the number 0 for
  \<^verbatim>\<open>days\<close> passes the test \<^verbatim>\<open>status === 'premium' && days\<close> as false, writes the
  status alone, and turns a free subscription into a premium one with no expiry date.
\<close>

theorem premium_zero_days_breaks_invariant:
  "sub_inv (sample_store True True None Free None False) \<and>
   \<not> sub_inv (snd (admin_subscription utc_environment (sample_store True True None Free None False) 1000
        sample_generated 1 7 Premium days_number_0)) \<and>
   subscriptions (snd (admin_subscription utc_environment (sample_store True True None Free None False) 1000
        sample_generated 1 7 Premium days_number_0)) =
     [\<lparr>s_id = 5, s_user_id = 1, s_product_id = 7, status = Premium, expires_at = None,
       trial_used = False\<rparr>]"
  by (simp add: sample_store_def sample_generated_def sub_inv_def row_inv_def admin_defs)

text \<open>
  Claim C3, amended. On a store where every subscription is free exactly when it has no
  expiry date, the invariant holds again after a verify call; after the trial
  activation write and after the expiry reversion write, on whatever row their filter
  selects; and after the admin override that resets to free or that sets premium with
  a \<^verbatim>\<open>days\<close> value that JavaScript takes as true (any value but 0, the empty
  string, \<^verbatim>\<open>null\<close>, \<^verbatim>\<open>false\<close> or a missing field), whatever \<^verbatim>\<open>parseInt\<close> makes of
  it.
\<close>

theorem lifecycle_writes_keep_expiry_invariant:
  assumes "sub_inv st"
  shows "sub_inv (snd (verify env st now api_key device)) \<and>
         sub_inv (update_subscriptions_eq_id st v (trial_update (setDate_plus env now 1))) \<and>
         sub_inv (update_subscriptions_eq_id st v revert_update) \<and>
         (new_status = Free \<or> (new_status = Premium \<and> truthy_days days) \<longrightarrow>
            sub_inv (snd (admin_subscription env st now g u p new_status days)))"
  using assms
  by (simp add: sub_inv_verify sub_inv_update_eq_id row_inv_trial_update row_inv_revert_update
      sub_inv_admin_subscription)

theorem lifecycle_writes_keep_expiry_invariant_witness:
  "sub_inv (sample_store True True None Free None False) \<and>
   sub_inv (update_subscriptions_eq_id (sample_store True True None Free None False) (Some 5)
      (trial_update (setDate_plus utc_environment 1000 1))) \<and>
   map status (subscriptions (update_subscriptions_eq_id
      (sample_store True True None Free None False) (Some 5)
      (trial_update (setDate_plus utc_environment 1000 1)))) = [Trial] \<and>
   sub_inv (snd (admin_subscription utc_environment (sample_store True True None Free None False) 1000
        sample_generated 1 7 Premium days_string_30)) \<and>
   map expires_at (subscriptions (snd (admin_subscription utc_environment
        (sample_store True True None Free None False) 1000
        sample_generated 1 7 Premium days_string_30))) = [Some 2592001000]"
proof -
  let ?st = "sample_store True True None Free None False"
  have inv: "sub_inv ?st"
    by (simp add: sample_store_def sub_inv_def row_inv_def)
  have c: "Premium = Free \<or> (Premium = Premium \<and> truthy_days days_string_30)"
    by (simp add: days_string_30_def)
  have t: "map status (subscriptions (update_subscriptions_eq_id ?st (Some 5)
      (trial_update (setDate_plus utc_environment 1000 1)))) = [Trial]"
    by (simp add: sample_store_def update_subscriptions_eq_id_def apply_update_def
        trial_update_def)
  have e: "map expires_at (subscriptions (snd (admin_subscription utc_environment ?st 1000
        sample_generated 1 7 Premium days_string_30))) = [Some 2592001000]"
    by (simp add: sample_store_def sample_generated_def admin_defs)
  from lifecycle_writes_keep_expiry_invariant
         [OF inv, where env = utc_environment and now = 1000 and v = "Some 5"
            and new_status = Premium and days = days_string_30 and g = sample_generated
            and u = 1 and p = 7] c inv t e
  show ?thesis by simp
qed

section \<open>Writes and concurrent requests\<close>

lemma updateData_status:
  "updateData env now new_status days = Inr upd \<Longrightarrow> set_status upd = Some new_status"
  by (auto simp: updateData_def Let_def split: if_splits option.splits)

lemma admin_subscription_status:
  assumes "admin_subscription env st now g u p new_status days = (Inr data, st')"
  shows "\<forall>s \<in> set (subscriptions st'). s_user_id s = u \<and> s_product_id s = p \<longrightarrow>
           status s = new_status"
proof (cases "updateData env now new_status days")
  case (Inl e)
  with assms show ?thesis by (simp add: admin_subscription_def)
next
  case (Inr upd)
  from updateData_status [OF Inr] have "\<And>s. status (apply_update upd s) = new_status"
    by (simp add: apply_update_def)
  with assms Inr show ?thesis
    by (auto simp: admin_subscription_def Let_def update_subscriptions_eq_user_product_def
        split: option.splits)
qed

text \<open>
  Claim C4, as stated, fails. Two first-use requests for the same fresh key, with
  devices \<open>D1\<close> and \<open>D2\<close>, both look the key up before either writes. The first binds
  \<open>D1\<close>; the second, continuing from its own lookup, writes \<open>D2\<close> over it. Both are
  answered \<open>valid = true\<close>, neither sees a conflict.
\<close>

theorem concurrent_binds_overwrite:
  "r_valid (fst (verify_after_select utc_environment
      (select_key_data (sample_store True False None Free None False) ''sk_1'')
      (sample_store True False None Free None False) 1000 ''D1'')) = Some True \<and>
   snd (verify_after_select utc_environment
      (select_key_data (sample_store True False None Free None False) ''sk_1'')
      (sample_store True False None Free None False) 1000 ''D1'') =
     sample_store True False (Some ''D1'') Free None False \<and>
   r_valid (fst (verify_after_select utc_environment
      (select_key_data (sample_store True False None Free None False) ''sk_1'')
      (sample_store True False (Some ''D1'') Free None False) 1000 ''D2'')) = Some True \<and>
   snd (verify_after_select utc_environment
      (select_key_data (sample_store True False None Free None False) ''sk_1'')
      (sample_store True False (Some ''D1'') Free None False) 1000 ''D2'') =
     sample_store True False (Some ''D2'') Free None False"
  by (simp add: sample_store_def query_defs verify_defs response_defs)

text \<open>
  Claim C4, amended. The writes are filtered on the identity of the record alone, not
  on the state that the handler read. When the lookup showed an active product and an
  unbound key, the rest of verify binds the presented device and answers
  \<open>valid = true\<close> whatever the key's row holds by then; and an admin override that
  succeeds leaves the subscription of the user and product in the requested status
  whatever it was.
\<close>

theorem writes_ignore_current_state:
  "(pv_is_active (kd_products kd) \<and> falsy (device_id (kd_row kd)) \<longrightarrow>
      r_valid (fst (verify_after_select env (Some kd) st now d)) = Some True \<and>
      (\<forall>r \<in> set (api_keys (snd (verify_after_select env (Some kd) st now d))).
         k_id r = k_id (kd_row kd) \<longrightarrow> device_id r = Some d)) \<and>
   (admin_subscription env st2 t g u p new_status days = (Inr data, st') \<longrightarrow>
      (\<forall>s \<in> set (subscriptions st'). s_user_id s = u \<and> s_product_id s = p \<longrightarrow>
         status s = new_status))"
proof (intro conjI impI)
  let ?st1 = "update_device_id_eq_id st (k_id (kd_row kd)) d"
  assume a: "pv_is_active (kd_products kd) \<and> falsy (device_id (kd_row kd))"
  then have run: "verify_after_select env (Some kd) st now d = verify_lifecycle env kd ?st1 now d"
    by (simp add: verify_after_select_def)
  then show "r_valid (fst (verify_after_select env (Some kd) st now d)) = Some True"
    by (simp add: verify_lifecycle_valid)
  have "\<forall>r \<in> set (api_keys ?st1). k_id r = k_id (kd_row kd) \<longrightarrow> device_id r = Some d"
    by (auto simp: update_device_id_eq_id_def)
  with run show "\<forall>r \<in> set (api_keys (snd (verify_after_select env (Some kd) st now d))).
         k_id r = k_id (kd_row kd) \<longrightarrow> device_id r = Some d"
    by (simp add: verify_lifecycle_api_keys)
next
  assume "admin_subscription env st2 t g u p new_status days = (Inr data, st')"
  then show "\<forall>s \<in> set (subscriptions st'). s_user_id s = u \<and> s_product_id s = p \<longrightarrow>
         status s = new_status"
    by (rule admin_subscription_status)
qed

theorem writes_ignore_current_state_witness:
  "map device_id (api_keys (snd (verify_after_select utc_environment
      (Some (sample_key_data True False None Free None False))
      (sample_store True False (Some ''D1'') Free None False) 1000 ''D2''))) = [Some ''D2''] \<and>
   r_valid (fst (verify_after_select utc_environment
      (Some (sample_key_data True False None Free None False))
      (sample_store True False (Some ''D1'') Free None False) 1000 ''D2'')) = Some True \<and>
   map status (subscriptions (snd (admin_subscription utc_environment
      (sample_store True False None Trial (Some 90000000) True) 1000 sample_generated 1 7
      Premium days_string_30))) = [Premium]"
proof -
  let ?kd = "sample_key_data True False None Free None False"
  let ?st = "sample_store True False (Some ''D1'') Free None False"
  let ?st2 = "sample_store True False None Trial (Some 90000000) True"
  let ?row = "\<lparr>s_id = 5, s_user_id = 1, s_product_id = 7, status = Premium,
               expires_at = Some 2592001000, trial_used = True\<rparr>"
  have a: "pv_is_active (kd_products ?kd) \<and> falsy (device_id (kd_row ?kd))"
    by (simp add: sample_key_data_def falsy_def)
  have b: "admin_subscription utc_environment ?st2 1000 sample_generated 1 7 Premium days_string_30 =
      (Inr ?row, ?st2\<lparr>subscriptions := [?row]\<rparr>)"
    by (simp add: sample_store_def sample_generated_def admin_defs)
  from writes_ignore_current_state
         [where env = utc_environment and kd = ?kd and st = ?st and now = 1000
            and d = "''D2''" and ?st2.0 = ?st2 and t = 1000 and g = sample_generated and u = 1
            and p = 7 and new_status = Premium and days = days_string_30 and data = ?row
            and st' = "?st2\<lparr>subscriptions := [?row]\<rparr>"] a b
  have "(\<forall>r \<in> set (api_keys (snd (verify_after_select utc_environment (Some ?kd) ?st 1000 ''D2''))).
           k_id r = k_id (kd_row ?kd) \<longrightarrow> device_id r = Some ''D2'') \<and>
        r_valid (fst (verify_after_select utc_environment (Some ?kd) ?st 1000 ''D2'')) = Some True"
    by blast
  moreover have "api_keys (snd (verify_after_select utc_environment (Some ?kd) ?st 1000 ''D2'')) =
      [\<lparr>k_id = 3, k_user_id = 1, k_product_id = 7, key_value = ''sk_1'',
        device_id = Some ''D2''\<rparr>]"
    by (simp add: sample_store_def sample_key_data_def query_defs verify_defs)
  ultimately show ?thesis
    using b by simp
qed

section \<open>The kill switch\<close>

text \<open>
  Claim C5. A verify request that passes validation and whose key resolves to a product
  with \<open>is_active = false\<close> is answered with the blocked payload (\<open>valid = false\<close>,
  the product's name) and the store after the call is the store before it: no device
  is bound, no subscription is written.
\<close>

theorem verify_blocked:
  assumes "k \<noteq> []" and "d \<noteq> []"
    and "select_key_data st k = Some kd"
    and "\<not> pv_is_active (kd_products kd)"
  shows "verify env st now (Some k) (Some d) = (blocked_response (pv_name (kd_products kd)), st) \<and>
         r_valid (blocked_response (pv_name (kd_products kd))) = Some False \<and>
         r_product (blocked_response (pv_name (kd_products kd))) = Some (pv_name (kd_products kd))"
  using assms by (simp add: verify_def verify_after_select_def blocked_response_def json_def)

text \<open>A fresh key of a disabled product, presented with device \<open>D1\<close>, stays unbound.\<close>

theorem verify_blocked_witness:
  "verify utc_environment (sample_store False True None Free None False) 1000 (Some ''sk_1'') (Some ''D1'')
     = (blocked_response ''Scraper Pro'', sample_store False True None Free None False) \<and>
   map device_id (api_keys (snd (verify utc_environment (sample_store False True None Free None False) 1000
     (Some ''sk_1'') (Some ''D1'')))) = [None]"
proof -
  let ?st = "sample_store False True None Free None False"
  let ?kd = "sample_key_data False True None Free None False"
  have sel: "select_key_data ?st ''sk_1'' = Some ?kd"
    by (simp add: sample_select)
  have off: "\<not> pv_is_active (kd_products ?kd)"
    by (simp add: sample_key_data_def)
  have "''sk_1'' \<noteq> []" "''D1'' \<noteq> []" by simp_all
  from verify_blocked [OF this sel off, where env = utc_environment and now = 1000]
  show ?thesis by (simp add: sample_store_def sample_key_data_def)
qed

section \<open>Device binding\<close>

text \<open>
  Claim C6. A fresh key (no bound device) of an active product, verified with device
  \<open>d1\<close>, is bound to \<open>d1\<close>: the call succeeds and the next lookup finds the key's row
  with \<open>device_id = d1\<close>. A verify with another device \<open>d2\<close> on the resulting store, at
  any later time, is answered with the device-conflict payload (\<open>valid = false\<close>) and
  leaves that store as it is: the key stays bound to \<open>d1\<close> and no subscription changes.
\<close>

theorem verify_bind_then_conflict:
  assumes "k \<noteq> []" and "d1 \<noteq> []" and "d2 \<noteq> []" and "d2 \<noteq> d1"
    and "select_key_data st k = Some kd"
    and "pv_is_active (kd_products kd)"
    and "device_id (kd_row kd) = None"
  shows "r_valid (fst (verify env st now (Some k) (Some d1))) = Some True \<and>
         select_key_data (snd (verify env st now (Some k) (Some d1))) k =
           Some (kd\<lparr>kd_row := (kd_row kd)\<lparr>device_id := Some d1\<rparr>\<rparr>) \<and>
         verify env (snd (verify env st now (Some k) (Some d1))) now' (Some k) (Some d2) =
           (conflict_response, snd (verify env st now (Some k) (Some d1))) \<and>
         r_valid conflict_response = Some False"
proof -
  let ?st1 = "update_device_id_eq_id st (k_id (kd_row kd)) d1"
  have no_id: "sv_id (kd_subscriptions kd) = None"
    using assms(5) by (rule select_key_data_no_id)
  have first: "verify env st now (Some k) (Some d1) = verify_lifecycle env kd ?st1 now d1"
    using assms by (simp add: verify_def verify_after_select_def falsy_def)
  then have store: "snd (verify env st now (Some k) (Some d1)) = ?st1"
    using no_id by (simp add: verify_lifecycle_store)
  have sel: "select_key_data ?st1 k = Some (kd\<lparr>kd_row := (kd_row kd)\<lparr>device_id := Some d1\<rparr>\<rparr>)"
    using assms(5) by (simp add: select_key_data_bind bind_row_def)
  have "verify env ?st1 now' (Some k) (Some d2) = (conflict_response, ?st1)"
    using assms(1-4,6) sel by (simp add: verify_def verify_after_select_def falsy_def)
  moreover have "r_valid conflict_response = Some False"
    by (simp add: conflict_response_def json_def)
  ultimately show ?thesis
    using first store sel by (simp add: verify_lifecycle_valid)
qed

theorem verify_bind_then_conflict_witness:
  "snd (verify utc_environment (sample_store True False None Free None True) 1000 (Some ''sk_1'') (Some ''D1'')) =
     sample_store True False (Some ''D1'') Free None True \<and>
   verify utc_environment (sample_store True False (Some ''D1'') Free None True) 2000 (Some ''sk_1'') (Some ''D2'') =
     (conflict_response, sample_store True False (Some ''D1'') Free None True)"
proof -
  let ?st = "sample_store True False None Free None True"
  let ?kd = "sample_key_data True False None Free None True"
  have sel: "select_key_data ?st ''sk_1'' = Some ?kd"
    by (simp add: sample_select)
  have on: "pv_is_active (kd_products ?kd)" and fresh: "device_id (kd_row ?kd) = None"
    by (simp_all add: sample_key_data_def)
  have ne: "''sk_1'' \<noteq> []" "''D1'' \<noteq> []" "''D2'' \<noteq> []" "''D2'' \<noteq> ''D1''"
    by simp_all
  have st1: "snd (verify utc_environment ?st 1000 (Some ''sk_1'') (Some ''D1'')) =
      sample_store True False (Some ''D1'') Free None True"
    by (simp add: sample_store_def query_defs verify_defs)
  from verify_bind_then_conflict
         [OF ne sel on fresh, where env = utc_environment and now = 1000 and now' = 2000] st1
  show ?thesis by simp
qed

section \<open>Days left\<close>

lemma math_ceil_div_ceiling:
  "math_ceil_div x d = \<lceil>real_of_int x / real_of_int d\<rceil>"
proof -
  have "\<lceil>real_of_int x / real_of_int d\<rceil> = - \<lfloor>real_of_int (- x) / real_of_int d\<rfloor>"
    by (simp add: ceiling_def)
  also have "\<dots> = - ((- x) div d)"
    by (simp only: floor_divide_of_int_eq)
  finally show ?thesis
    by (simp add: math_ceil_div_def)
qed

lemma days_left_ceiling:
  "days_left x t = map_option (\<lambda>v. max 0 \<lceil>real_of_int (v - t) / 86400000\<rceil>) (date_value x)"
  by (simp add: days_left_def math_ceil_div_ceiling MS_PER_DAY_def)

lemma days_left_nonneg: "days_left x t = Some m \<Longrightarrow> 0 \<le> m"
  by (auto simp: days_left_def)

text \<open>The number that the handler subtracts from is the stored one when the date parses.\<close>

lemma date_value_expiresAt_of:
  "date_value (expiresAt_of env sub) = Some v \<Longrightarrow> v = to_number (sv_expires_at sub)"
  by (cases "sv_expires_at sub")
     (auto simp: date_value_def expiresAt_of_def new_Date_def to_number_def split: if_splits)

lemma date_value_expiresAt_of_NaN:
  "date_value (expiresAt_of env sub) = None \<Longrightarrow>
     \<exists>t. sv_expires_at sub = Some t \<and> \<not> parses env t \<and> \<not> expired env sub now"
  by (cases "sv_expires_at sub")
     (auto simp: date_value_def expiresAt_of_def new_Date_def expired_def split: if_splits)

lemma steady_response_days_left:
  assumes "r_days_left (steady_response kd (reverted env sub now) (expiresAt_of env sub) now d)
             = Some (Some n)"
  shows "r_expires_at (steady_response kd (reverted env sub now) (expiresAt_of env sub) now d) =
           Some (sv_expires_at sub) \<and>
         n = max 0 \<lceil>real_of_int (to_number (sv_expires_at sub) - now) / 86400000\<rceil>"
proof -
  from assms have on: "sv_status (reverted env sub now) \<noteq> Free"
    and n: "days_left (expiresAt_of env sub) now = Some n"
    by (auto simp: steady_response_def json_def Let_def split: if_splits)
  from on have same: "reverted env sub now = sub"
    by (auto simp: reverted_def split: if_splits)
  from n obtain v where v: "date_value (expiresAt_of env sub) = Some v"
    and nv: "n = max 0 \<lceil>real_of_int (v - now) / 86400000\<rceil>"
    by (auto simp: days_left_ceiling)
  from date_value_expiresAt_of [OF v] nv
  have "n = max 0 \<lceil>real_of_int (to_number (sv_expires_at sub) - now) / 86400000\<rceil>"
    by simp
  moreover from on same
  have "r_expires_at (steady_response kd (reverted env sub now) (expiresAt_of env sub) now d) =
      Some (sv_expires_at sub)"
    by (cases "sv_status sub") (auto simp: steady_response_def json_def Let_def)
  ultimately show ?thesis by simp
qed

lemma steady_response_days_left_null:
  assumes "r_days_left (steady_response kd (reverted env sub now) (expiresAt_of env sub) now d)
             = Some None"
  shows "\<exists>t. r_expires_at (steady_response kd (reverted env sub now) (expiresAt_of env sub) now d)
               = Some (Some t) \<and> \<not> parses env t"
proof -
  from assms have on: "sv_status (reverted env sub now) \<noteq> Free"
    and n: "days_left (expiresAt_of env sub) now = None"
    by (auto simp: steady_response_def json_def Let_def split: if_splits)
  from n have "date_value (expiresAt_of env sub) = None"
    by (simp add: days_left_def)
  from date_value_expiresAt_of_NaN [OF this, of now] obtain t where
    t: "sv_expires_at sub = Some t" "\<not> parses env t" "\<not> expired env sub now"
    by blast
  with on have "r_expires_at (steady_response kd (reverted env sub now) (expiresAt_of env sub) now d) =
      Some (Some t)"
    by (cases "sv_status sub") (auto simp: steady_response_def reverted_def json_def Let_def)
  with t show ?thesis by blast
qed

lemma verify_lifecycle_response:
  "fst (verify_lifecycle env kd st now d) = trial_activated_response kd (setDate_plus env now 1) d \<or>
   fst (verify_lifecycle env kd st now d) =
     steady_response kd (reverted env (kd_subscriptions kd) now)
       (expiresAt_of env (kd_subscriptions kd)) now d"
  by (simp add: verify_lifecycle_def Let_def)

text \<open>The responses of verify: the three refusals, the trial activation, the steady state.\<close>

lemma verify_response:
  "fst (verify env st now api_key device) \<in>
     {required_response, invalid_key_response, conflict_response} \<or>
   (\<exists>name. fst (verify env st now api_key device) = blocked_response name) \<or>
   (\<exists>kd d. fst (verify env st now api_key device) =
      trial_activated_response kd (setDate_plus env now 1) d) \<or>
   (\<exists>kd d. fst (verify env st now api_key device) =
      steady_response kd (reverted env (kd_subscriptions kd) now)
        (expiresAt_of env (kd_subscriptions kd)) now d)"
proof -
  have "fst (verify_lifecycle env kd st' now d) =
          trial_activated_response kd (setDate_plus env now 1) d \<or>
        fst (verify_lifecycle env kd st' now d) =
          steady_response kd (reverted env (kd_subscriptions kd) now)
            (expiresAt_of env (kd_subscriptions kd)) now d" for kd st' d
    by (rule verify_lifecycle_response)
  then show ?thesis
    by (auto simp: verify_def verify_after_select_def split: option.splits) blast+
qed

lemma refusal_days_left:
  "r_days_left required_response = None" "r_days_left invalid_key_response = None"
  "r_days_left conflict_response = None" "r_days_left (blocked_response name) = None"
  by (simp_all add: required_response_def invalid_key_response_def conflict_response_def
      blocked_response_def json_def)

lemma trial_activated_fields:
  "r_days_left (trial_activated_response kd e d) = Some (Some 1)"
  "r_expires_at (trial_activated_response kd e d) = Some (Some e)"
  by (simp_all add: trial_activated_response_def json_def)

lemma verify_days_left:
  assumes "r_days_left (fst (verify env st now api_key device)) = Some (Some n)"
  shows "(\<exists>e. r_expires_at (fst (verify env st now api_key device)) = Some e \<and>
              n = max 0 \<lceil>real_of_int (to_number e - now) / 86400000\<rceil>) \<or>
         (n = 1 \<and> (\<exists>kd d. fst (verify env st now api_key device) =
                      trial_activated_response kd (setDate_plus env now 1) d))"
proof -
  let ?r = "fst (verify env st now api_key device)"
  consider "?r \<in> {required_response, invalid_key_response, conflict_response}"
    | name where "?r = blocked_response name"
    | kd d where "?r = trial_activated_response kd (setDate_plus env now 1) d"
    | kd d where "?r = steady_response kd (reverted env (kd_subscriptions kd) now)
                         (expiresAt_of env (kd_subscriptions kd)) now d"
    using verify_response [of env st now api_key device] by blast
  then show ?thesis
  proof cases
    case 1
    with assms show ?thesis by (auto simp: refusal_days_left)
  next
    case 2
    with assms show ?thesis by (simp add: refusal_days_left)
  next
    case 3
    with assms have "n = 1" by (simp add: trial_activated_fields)
    with 3 show ?thesis by blast
  next
    case 4
    with assms steady_response_days_left [of kd env "kd_subscriptions kd" now d n]
    show ?thesis by (simp only:) blast
  qed
qed

lemma verify_days_left_null:
  assumes "r_days_left (fst (verify env st now api_key device)) = Some None"
  shows "\<exists>t. r_expires_at (fst (verify env st now api_key device)) = Some (Some t) \<and>
             \<not> parses env t"
proof -
  let ?r = "fst (verify env st now api_key device)"
  consider "?r \<in> {required_response, invalid_key_response, conflict_response}"
    | name where "?r = blocked_response name"
    | kd d where "?r = trial_activated_response kd (setDate_plus env now 1) d"
    | kd d where "?r = steady_response kd (reverted env (kd_subscriptions kd) now)
                         (expiresAt_of env (kd_subscriptions kd)) now d"
    using verify_response [of env st now api_key device] by blast
  then show ?thesis
  proof cases
    case 1
    with assms show ?thesis by (auto simp: refusal_days_left)
  next
    case 2
    with assms show ?thesis by (simp add: refusal_days_left)
  next
    case 3
    with assms show ?thesis by (simp add: trial_activated_fields)
  next
    case 4
    with assms steady_response_days_left_null [of kd env "kd_subscriptions kd" now d]
    show ?thesis by (simp only:)
  qed
qed

lemma one_day_formula:
  assumes "0 < e - now" and "e - now \<le> 86400000"
  shows "max 0 \<lceil>real_of_int (to_number (Some e) - now) / 86400000\<rceil> = 1"
proof -
  have "math_ceil_div (e - now) 86400000 = 1"
    using assms by (simp add: math_ceil_div_def)
  then show ?thesis
    by (simp add: math_ceil_div_ceiling to_number_def)
qed

lemma verify_days_left_nonneg:
  assumes "r_days_left (fst (verify env st now api_key device)) = Some (Some n)"
  shows "0 \<le> n"
proof -
  from verify_days_left [OF assms]
  have "(\<exists>e. n = max 0 \<lceil>real_of_int (to_number e - now) / 86400000\<rceil>) \<or> n = 1"
    by blast
  then show ?thesis
  proof
    assume "\<exists>e. n = max 0 \<lceil>real_of_int (to_number e - now) / 86400000\<rceil>"
    then obtain e where "n = max 0 \<lceil>real_of_int (to_number e - now) / 86400000\<rceil>" ..
    then show ?thesis by (simp only: max.cobounded1)
  next
    assume "n = 1"
    then show ?thesis by simp
  qed
qed

lemma verify_days_left_short_day:
  assumes a: "r_days_left (fst (verify env st now api_key device)) = Some (Some n)"
    and lo: "0 < setDate_plus env now 1 - now"
    and hi: "setDate_plus env now 1 - now \<le> 86400000"
  shows "\<exists>e. r_expires_at (fst (verify env st now api_key device)) = Some e \<and>
             n = max 0 \<lceil>real_of_int (to_number e - now) / 86400000\<rceil>"
proof -
  let ?r = "fst (verify env st now api_key device)"
  from verify_days_left [OF a] show ?thesis
  proof
    assume "\<exists>e. r_expires_at ?r = Some e \<and>
              n = max 0 \<lceil>real_of_int (to_number e - now) / 86400000\<rceil>"
    then show ?thesis .
  next
    assume "n = 1 \<and> (\<exists>kd d. ?r = trial_activated_response kd (setDate_plus env now 1) d)"
    then obtain kd d where r: "?r = trial_activated_response kd (setDate_plus env now 1) d"
      and n: "n = 1"
      by (elim exE conjE)
    from one_day_formula [OF lo hi] n
    have f: "n = max 0 \<lceil>real_of_int (to_number (Some (setDate_plus env now 1)) - now)
        / 86400000\<rceil>"
      by (simp only:)
    from r have "r_expires_at ?r = Some (Some (setDate_plus env now 1))"
      by (simp only: trial_activated_fields)
    with f show ?thesis
      by (intro exI [where x = "Some (setDate_plus env now 1)"] conjI)
  qed
qed

text \<open>
  Claim C7, as stated, fails. The trial activation answers the constant
  \<open>days_left = 1\<close> beside an \<open>expires_at\<close> one calendar day of the server's zone
  ahead. On a server on New York time, at noon of 2 November 2024 (16:00 UTC), the day
  ahead has 25 hours: \<open>expires_at\<close> is 90000000 ms after the clock, for which the
  formula gives 2, not 1.
\<close>

theorem trial_days_left_is_constant:
  "r_days_left (fst (verify new_york_environment (sample_store True True None Free None False)
      1730563200000 (Some ''sk_1'') (Some ''D1''))) = Some (Some 1) \<and>
   r_expires_at (fst (verify new_york_environment (sample_store True True None Free None False)
      1730563200000 (Some ''sk_1'') (Some ''D1''))) = Some (Some (1730563200000 + 90000000)) \<and>
   max 0 \<lceil>real_of_int (to_number (Some (1730563200000 + 90000000)) - 1730563200000) / 86400000\<rceil>
     = 2"
proof -
  have "math_ceil_div 90000000 86400000 = 2"
    by (simp add: math_ceil_div_def)
  then have "\<lceil>real_of_int 90000000 / real_of_int 86400000\<rceil> = 2"
    by (simp only: math_ceil_div_ceiling)
  then have "max 0 \<lceil>real_of_int (to_number (Some (1730563200000 + 90000000)) - 1730563200000)
      / 86400000\<rceil> = 2"
    by (simp add: to_number_def)
  moreover have "fst (verify new_york_environment (sample_store True True None Free None False)
      1730563200000 (Some ''sk_1'') (Some ''D1'')) =
      trial_activated_response (sample_key_data True True None Free None False)
        (1730563200000 + 90000000) ''D1''"
    by (simp add: sample_store_def sample_key_data_def query_defs verify_defs)
  ultimately show ?thesis
    by (simp only: trial_activated_fields simp_thms)
qed

text \<open>
  Claim C7, amended. When the response of verify has a number \<open>n\<close> as \<open>days_left\<close>,
  \<open>n\<close> is not negative, and either the response has an \<open>expires_at\<close> field and \<open>n\<close>
  is the ceiling of (expires_at - now) / 86400000 ms, replaced by 0 when negative
  (\<^verbatim>\<open>null\<close> counting as 0), or the response is the trial activation with its constant
  \<open>n = 1\<close>. The formula holds for every such response when the calendar day that the
  trial adds is longer than 0 and at most 24 hours, as on a UTC server. The field is
  \<^verbatim>\<open>null\<close> only beside a stored expiry date that \<^verbatim>\<open>new Date\<close> does not parse. The
  figure the handler computes from an expiry date and a clock obeys the formula, and
  is never negative, also when the expiry date is before the clock.
\<close>

theorem days_left_formula:
  "(r_days_left (fst (verify env st now api_key device)) = Some (Some n) \<longrightarrow>
      0 \<le> n \<and>
      ((\<exists>e. r_expires_at (fst (verify env st now api_key device)) = Some e \<and>
            n = max 0 \<lceil>real_of_int (to_number e - now) / 86400000\<rceil>) \<or>
       (n = 1 \<and> (\<exists>kd d. fst (verify env st now api_key device) =
                    trial_activated_response kd (setDate_plus env now 1) d)))) \<and>
   (r_days_left (fst (verify env st now api_key device)) = Some (Some n) \<and>
    0 < setDate_plus env now 1 - now \<and> setDate_plus env now 1 - now \<le> 86400000 \<longrightarrow>
      (\<exists>e. r_expires_at (fst (verify env st now api_key device)) = Some e \<and>
           n = max 0 \<lceil>real_of_int (to_number e - now) / 86400000\<rceil>)) \<and>
   (r_days_left (fst (verify env st now api_key device)) = Some None \<longrightarrow>
      (\<exists>t. r_expires_at (fst (verify env st now api_key device)) = Some (Some t) \<and>
           \<not> parses env t)) \<and>
   days_left x t = map_option (\<lambda>v. max 0 \<lceil>real_of_int (v - t) / 86400000\<rceil>) (date_value x) \<and>
   (days_left x t = Some m \<longrightarrow> 0 \<le> m)"
proof (intro conjI impI)
  assume "r_days_left (fst (verify env st now api_key device)) = Some (Some n)"
  then show "0 \<le> n" by (rule verify_days_left_nonneg)
next
  assume "r_days_left (fst (verify env st now api_key device)) = Some (Some n)"
  then show "(\<exists>e. r_expires_at (fst (verify env st now api_key device)) = Some e \<and>
            n = max 0 \<lceil>real_of_int (to_number e - now) / 86400000\<rceil>) \<or>
       (n = 1 \<and> (\<exists>kd d. fst (verify env st now api_key device) =
                    trial_activated_response kd (setDate_plus env now 1) d))"
    by (rule verify_days_left)
next
  assume "r_days_left (fst (verify env st now api_key device)) = Some (Some n) \<and>
    0 < setDate_plus env now 1 - now \<and> setDate_plus env now 1 - now \<le> 86400000"
  then show "\<exists>e. r_expires_at (fst (verify env st now api_key device)) = Some e \<and>
           n = max 0 \<lceil>real_of_int (to_number e - now) / 86400000\<rceil>"
    by (elim conjE) (rule verify_days_left_short_day)
next
  assume "r_days_left (fst (verify env st now api_key device)) = Some None"
  then show "\<exists>t. r_expires_at (fst (verify env st now api_key device)) = Some (Some t) \<and>
           \<not> parses env t"
    by (rule verify_days_left_null)
next
  show "days_left x t =
      map_option (\<lambda>v. max 0 \<lceil>real_of_int (v - t) / 86400000\<rceil>) (date_value x)"
    by (rule days_left_ceiling)
next
  assume "days_left x t = Some m"
  then show "0 \<le> m" by (rule days_left_nonneg)
qed

text \<open>
  On a UTC server a premium subscription with a day and a half left reports 2 days,
  one that expires in the year 10000 reports \<^verbatim>\<open>null\<close>, and an expiry date before the
  clock gives the figure 0.
\<close>

theorem days_left_formula_witness:
  "r_days_left (fst (verify utc_environment
      (sample_store True True (Some ''D1'') Premium (Some 129601000) True)
      1000 (Some ''sk_1'') (Some ''D1''))) = Some (Some 2) \<and>
   (\<exists>e. r_expires_at (fst (verify utc_environment
      (sample_store True True (Some ''D1'') Premium (Some 129601000) True)
      1000 (Some ''sk_1'') (Some ''D1''))) = Some e \<and>
      (2::int) = max 0 \<lceil>real_of_int (to_number e - 1000) / 86400000\<rceil>) \<and>
   r_days_left (fst (verify utc_environment
      (sample_store True True (Some ''D1'') Premium (Some 253402300800000) True)
      1000 (Some ''sk_1'') (Some ''D1''))) = Some None \<and>
   (\<exists>t. r_expires_at (fst (verify utc_environment
      (sample_store True True (Some ''D1'') Premium (Some 253402300800000) True)
      1000 (Some ''sk_1'') (Some ''D1''))) = Some (Some t) \<and> \<not> parses utc_environment t) \<and>
   days_left (Some (Date 500)) 1000 = Some 0"
proof -
  let ?far = "sample_store True True (Some ''D1'') Premium (Some 253402300800000) True"
  have nan: "r_days_left (fst (verify utc_environment ?far 1000 (Some ''sk_1'') (Some ''D1''))) =
      Some None"
    by (simp add: sample_store_def query_defs verify_defs response_defs)
  from days_left_formula
         [where env = utc_environment and st = ?far and now = 1000 and api_key = "Some ''sk_1''"
            and device = "Some ''D1''"] nan
  have far: "\<exists>t. r_expires_at (fst (verify utc_environment ?far 1000 (Some ''sk_1'')
      (Some ''D1''))) = Some (Some t) \<and> \<not> parses utc_environment t"
    by blast
  let ?st = "sample_store True True (Some ''D1'') Premium (Some 129601000) True"
  have h: "r_days_left (fst (verify utc_environment ?st 1000 (Some ''sk_1'') (Some ''D1''))) =
      Some (Some 2)"
    by (simp add: sample_store_def query_defs verify_defs response_defs)
  have day: "0 < setDate_plus utc_environment 1000 1 - 1000 \<and>
      setDate_plus utc_environment 1000 1 - 1000 \<le> 86400000"
    by (simp add: environment_defs Let_def)
  have z: "days_left (Some (Date 500)) 1000 = Some 0"
    by (simp add: verify_defs)
  from days_left_formula
         [where env = utc_environment and st = ?st and now = 1000 and api_key = "Some ''sk_1''"
            and device = "Some ''D1''" and n = 2] h day z
  have "\<exists>e. r_expires_at (fst (verify utc_environment ?st 1000 (Some ''sk_1'') (Some ''D1''))) =
      Some e \<and> (2::int) = max 0 \<lceil>real_of_int (to_number e - 1000) / 86400000\<rceil>"
    by blast
  with h nan far z show ?thesis
    by (intro conjI)
qed

section \<open>Unknown keys\<close>

text \<open>
  Claim C8. A verify request that passes validation and whose token the lookup
  resolves to no record (in particular a token that no row of \<^verbatim>\<open>api_keys\<close> carries)
  is answered with status 200 and the payload \<open>valid = false\<close>,
  \<open>error = "Invalid API key"\<close>; the store is unchanged, and the call repeated on the
  resulting store, at any time, gives the same answer and store.
\<close>

theorem verify_unknown_key:
  assumes "k \<noteq> []" and "d \<noteq> []"
    and "select_key_data st k = None"
  shows "verify env st now (Some k) (Some d) = (invalid_key_response, st) \<and>
         http_status invalid_key_response = 200 \<and>
         r_valid invalid_key_response = Some False \<and>
         r_error invalid_key_response = Some ''Invalid API key'' \<and>
         verify env (snd (verify env st now (Some k) (Some d))) now' (Some k) (Some d) =
           verify env st now (Some k) (Some d)"
  using assms by (simp add: verify_def verify_after_select_def invalid_key_response_def json_def)

theorem verify_unknown_key_witness:
  "verify utc_environment (sample_store True True None Free None False) 1000 (Some ''sk_0'') (Some ''D1'') =
     (invalid_key_response, sample_store True True None Free None False) \<and>
   list_all (\<lambda>r. key_value r \<noteq> ''sk_0'')
     (api_keys (sample_store True True None Free None False))"
proof -
  let ?st = "sample_store True True None Free None False"
  have rows: "\<forall>r \<in> set (api_keys ?st). key_value r \<noteq> ''sk_0''"
    by (simp add: sample_store_def)
  then have none: "select_key_data ?st ''sk_0'' = None"
    by (rule select_no_row)
  have ne: "''sk_0'' \<noteq> []" "''D1'' \<noteq> []" by simp_all
  from verify_unknown_key
         [OF ne none, where env = utc_environment and now = 1000 and now' = 1000] rows
  show ?thesis by (simp add: list_all_iff)
qed

section \<open>Releasing a device\<close>

lemma release_found:
  assumes "single (filter (\<lambda>r. key_value r = k) (api_keys st)) = Some r"
  shows "update_device_null_eq_key_value st k =
           (Some (r\<lparr>device_id := None\<rparr>),
            st\<lparr>api_keys := map (\<lambda>r. if key_value r = k then r\<lparr>device_id := None\<rparr> else r)
                              (api_keys st)\<rparr>)"
  using assms by (simp add: update_device_null_eq_key_value_def)

text \<open>
  Claim C9. For a non-empty token: when exactly one key carries it, release-device
  answers success and the store differs only in that this key has no bound device;
  releasing again gives the same answer and the same store, so two releases equal
  one, also when the key was unbound already. When no key carries the token, the
  answer is the not-found error (status 404) and the store is unchanged.
\<close>

theorem release_device_idempotent:
  assumes "k \<noteq> []"
  shows "(single (filter (\<lambda>r. key_value r = k) (api_keys st)) \<noteq> None \<longrightarrow>
            release_device st (Some k) =
              (released_response,
               st\<lparr>api_keys := map (\<lambda>r. if key_value r = k then r\<lparr>device_id := None\<rparr> else r)
                                 (api_keys st)\<rparr>) \<and>
            r_success released_response = Some True \<and>
            release_device (snd (release_device st (Some k))) (Some k) =
              release_device st (Some k)) \<and>
         ((\<forall>r \<in> set (api_keys st). key_value r \<noteq> k) \<longrightarrow>
            release_device st (Some k) = (not_found_response, st) \<and>
            http_status not_found_response = 404)"
proof (intro conjI impI)
  let ?f = "\<lambda>r. if key_value r = k then r\<lparr>device_id := None\<rparr> else r"
  let ?st' = "st\<lparr>api_keys := map ?f (api_keys st)\<rparr>"
  assume "single (filter (\<lambda>r. key_value r = k) (api_keys st)) \<noteq> None"
  then obtain r where r: "single (filter (\<lambda>r. key_value r = k) (api_keys st)) = Some r"
    by blast
  with assms show first: "release_device st (Some k) = (released_response, ?st')"
    by (simp add: release_device_def release_found)
  have keep: "\<And>r. key_value (?f r) = key_value r" by simp
  have "single (filter (\<lambda>r. key_value r = k) (api_keys ?st')) = Some (?f r)"
    using r by (simp add: filter_key_value_map [of ?f, OF keep] single_map)
  moreover have "map ?f (map ?f (api_keys st)) = map ?f (api_keys st)"
    by simp
  ultimately have "release_device ?st' (Some k) = (released_response, ?st')"
    using assms by (simp add: release_device_def release_found)
  with first
  show "release_device (snd (release_device st (Some k))) (Some k) = release_device st (Some k)"
    by simp
next
  show "r_success released_response = Some True"
    by (simp add: released_response_def json_def)
next
  assume "\<forall>r \<in> set (api_keys st). key_value r \<noteq> k"
  then have "filter (\<lambda>r. key_value r = k) (api_keys st) = []"
    by (simp add: filter_empty_conv)
  with assms show "release_device st (Some k) = (not_found_response, st)"
    by (simp add: release_device_def update_device_null_eq_key_value_def)
next
  show "http_status not_found_response = 404"
    by (simp add: not_found_response_def json_def)
qed

theorem release_device_idempotent_witness:
  "release_device (sample_store True True (Some ''D1'') Free None False) (Some ''sk_1'') =
     (released_response, sample_store True True None Free None False) \<and>
   release_device (sample_store True True None Free None False) (Some ''sk_1'') =
     (released_response, sample_store True True None Free None False) \<and>
   release_device (sample_store True True (Some ''D1'') Free None False) (Some ''sk_0'') =
     (not_found_response, sample_store True True (Some ''D1'') Free None False)"
proof -
  let ?st = "sample_store True True (Some ''D1'') Free None False"
  let ?st' = "sample_store True True None Free None False"
  have one: "single (filter (\<lambda>r. key_value r = ''sk_1'') (api_keys ?st)) \<noteq> None"
    by (simp add: sample_store_def)
  have unbound: "?st\<lparr>api_keys := map (\<lambda>r. if key_value r = ''sk_1''
      then r\<lparr>device_id := None\<rparr> else r) (api_keys ?st)\<rparr> = ?st'"
    by (simp add: sample_store_def)
  have no: "\<forall>r \<in> set (api_keys ?st). key_value r \<noteq> ''sk_0''"
    by (simp add: sample_store_def)
  have ne: "''sk_1'' \<noteq> []" "''sk_0'' \<noteq> []" by simp_all
  from release_device_idempotent [OF ne(1), of ?st] one
  have first: "release_device ?st (Some ''sk_1'') =
      (released_response, ?st\<lparr>api_keys := map (\<lambda>r. if key_value r = ''sk_1''
         then r\<lparr>device_id := None\<rparr> else r) (api_keys ?st)\<rparr>)"
    and again: "release_device (snd (release_device ?st (Some ''sk_1''))) (Some ''sk_1'') =
      release_device ?st (Some ''sk_1'')"
    by blast+
  from first unbound have one_release: "release_device ?st (Some ''sk_1'') = (released_response, ?st')"
    by (simp only:)
  with again have "release_device ?st' (Some ''sk_1'') = (released_response, ?st')"
    by (simp only: snd_conv)
  moreover note one_release
  moreover from release_device_idempotent [OF ne(2), of ?st] no
  have "release_device ?st (Some ''sk_0'') = (not_found_response, ?st)"
    by blast
  ultimately show ?thesis by simp
qed

section \<open>The two verify handlers\<close>

lemma handleVerify_response_eq:
  "handleVerify_response kd sub e now d =
     (if (sv_status sub = Premium \<or> sv_status sub = Trial) \<and> e = None
      then Inl TypeError
      else Inr (steady_response kd sub e now d))"
proof (cases e)
  case None
  then show ?thesis
    by (simp add: handleVerify_response_def handleVerify_days_left_def steady_response_def
        Let_def)
next
  case (Some date)
  then show ?thesis
    by (cases date)
       (simp_all add: handleVerify_response_def handleVerify_days_left_def
          steady_response_def days_left_def date_value_def Let_def)
qed

lemma handleVerify_lifecycle_store:
  "snd (handleVerify_lifecycle env kd st now d) = snd (verify_lifecycle env kd st now d)"
  by (simp add: handleVerify_lifecycle_def verify_lifecycle_def Let_def)

text \<open>
  The edge function raises exactly on a subscription that is not free and has no expiry
  date; otherwise it returns the response of the server.
\<close>

lemma handleVerify_lifecycle_response:
  "fst (handleVerify_lifecycle env kd st now d) =
     (if sv_status (kd_subscriptions kd) \<noteq> Free \<and> sv_expires_at (kd_subscriptions kd) = None
      then Inl TypeError
      else Inr (fst (verify_lifecycle env kd st now d)))"
  by (cases "sv_status (kd_subscriptions kd)")
     (auto simp: handleVerify_lifecycle_def verify_lifecycle_def Let_def
        handleVerify_response_eq reverted_def expired_def expiresAt_of_def)

lemma handleVerify_store:
  "snd (handleVerify env st now api_key device) = snd (verify env st now api_key device)"
  by (simp add: handleVerify_def verify_def verify_after_select_def
      handleVerify_lifecycle_store split: option.splits)

lemma handleVerify_returns:
  "fst (handleVerify env st now api_key device) = Inl TypeError \<or>
   fst (handleVerify env st now api_key device) = Inr (fst (verify env st now api_key device))"
  by (simp add: handleVerify_def verify_def verify_after_select_def
      handleVerify_lifecycle_response split: option.splits)

lemma serve_verify_store:
  "snd (serve_verify env st now api_key device) = snd (verify env st now api_key device)"
  by (cases "handleVerify env st now api_key device")
     (auto simp: serve_verify_def handleVerify_store [symmetric] split: sum.splits)

text \<open>
  The two handlers leave the store in the same state on every input, and return the
  same response unless the edge function raises.
\<close>

lemma serve_verify_agrees:
  "snd (serve_verify env st now api_key device) = snd (verify env st now api_key device) \<and>
   (fst (handleVerify env st now api_key device) \<noteq> Inl TypeError \<longrightarrow>
    serve_verify env st now api_key device = verify env st now api_key device)"
proof (intro conjI impI)
  show store: "snd (serve_verify env st now api_key device) =
      snd (verify env st now api_key device)"
    by (rule serve_verify_store)
  assume "fst (handleVerify env st now api_key device) \<noteq> Inl TypeError"
  with handleVerify_returns [of env st now api_key device]
  have "fst (handleVerify env st now api_key device) =
      Inr (fst (verify env st now api_key device))"
    by blast
  then have "fst (serve_verify env st now api_key device) =
      fst (verify env st now api_key device)"
    by (cases "handleVerify env st now api_key device") (simp add: serve_verify_def)
  with store show "serve_verify env st now api_key device = verify env st now api_key device"
    by (simp add: prod_eq_iff)
qed

text \<open>
  Claim C10 (the code departs from it). On a premium subscription with no expiry date,
  a state that the admin override to premium without \<^verbatim>\<open>days\<close> produces, the server
  computes \<^verbatim>\<open>null - now\<close> and answers 200 with \<open>days_left = 0\<close>; the edge function
  calls \<^verbatim>\<open>getTime\<close> on \<^verbatim>\<open>null\<close>, which raises a \<^verbatim>\<open>TypeError\<close> that \<^verbatim>\<open>serve\<close>
  answers with 500 and a body without \<open>valid\<close>. Both have bound the device.
\<close>

theorem serve_verify_differs:
  "fst (verify utc_environment (sample_store True True None Premium None False) 1000
      (Some ''sk_1'') (Some ''D1'')) =
     steady_response (sample_key_data True True None Premium None False)
       (kd_subscriptions (sample_key_data True True None Premium None False)) None 1000 ''D1'' \<and>
   http_status (fst (verify utc_environment (sample_store True True None Premium None False) 1000
      (Some ''sk_1'') (Some ''D1''))) = 200 \<and>
   r_days_left (fst (verify utc_environment (sample_store True True None Premium None False) 1000
      (Some ''sk_1'') (Some ''D1''))) = Some (Some 0) \<and>
   fst (handleVerify utc_environment (sample_store True True None Premium None False) 1000
      (Some ''sk_1'') (Some ''D1'')) = Inl TypeError \<and>
   fst (serve_verify utc_environment (sample_store True True None Premium None False) 1000
      (Some ''sk_1'') (Some ''D1'')) = serve_error_response \<and>
   http_status serve_error_response = 500 \<and>
   snd (serve_verify utc_environment (sample_store True True None Premium None False) 1000
      (Some ''sk_1'') (Some ''D1'')) = sample_store True True (Some ''D1'') Premium None False"
  by (simp add: sample_store_def sample_key_data_def query_defs verify_defs response_defs
      edge_defs)

end
